theory Spec2Isabelle
  imports Main
begin

section \<open>JavaScript values and exceptions\<close>

text \<open>
  The server is TypeScript compiled to JavaScript: the interfaces \<open>Alert\<close>,
  \<open>FormattedAlert\<close> and \<open>Silence\<close> are erased, and what \<open>response.json()\<close>
  returns is cast, not checked. A value is therefore modelled as it is at run time.
  Strings are sequences of bytes (the UTF-8 form the query string and the request body
  are sent in). Numbers are IEEE doubles; no handler computes with one, so their type
  is the parameter \<open>'n\<close>.
\<close>

datatype 'n jsval =
    Undefined
  | Null
  | Bool bool
  | Num 'n
  | Str string
  | Arr "'n jsval list"
  | Obj "(string \<times> 'n jsval) list"

text \<open>
  What a \<open>catch (error: unknown)\<close> clause can receive: an instance of \<open>Error\<close>
  with its \<open>message\<close>, or any other thrown value, given by its \<open>String(error)\<close>.
\<close>

datatype thrown = ErrorInstance string | NonError string

text \<open>\<open>error instanceof Error ? error.message : String(error)\<close>\<close>

fun errorMessage :: "thrown \<Rightarrow> string" where
  "errorMessage (ErrorInstance m) = m"
| "errorMessage (NonError s) = s"

text \<open>Sequencing of steps that may throw: the first exception ends the block.\<close>

fun and_then :: "'e + 'a \<Rightarrow> ('a \<Rightarrow> 'e + 'b) \<Rightarrow> 'e + 'b" where
  "and_then (Inl e) f = Inl e"
| "and_then (Inr x) f = f x"

text \<open>
  The message V8 (Node 18, the image of the Dockerfile) gives a read of a property of
  \<open>undefined\<close> or \<open>null\<close>.
\<close>

definition cannot_read :: "string \<Rightarrow> string \<Rightarrow> thrown" where
  "cannot_read what k =
     ErrorInstance (''Cannot read properties of '' @ what @ '' (reading '' @
                    [CHR 0x27] @ k @ [CHR 0x27] @ '')'')"

text \<open>An own property, \<open>undefined\<close> when the object has none of that name.\<close>

definition field :: "(string \<times> 'n jsval) list \<Rightarrow> string \<Rightarrow> 'n jsval" where
  "field kvs k = (case map_of kvs k of None \<Rightarrow> Undefined | Some x \<Rightarrow> x)"

text \<open>
  \<open>v.k\<close>, for the property names the handlers read (\<open>fingerprint\<close>, \<open>labels\<close>,
  \<open>alertname\<close>, \<open>severity\<close>, \<open>annotations\<close>, \<open>summary\<close>, \<open>description\<close>,
  \<open>startsAt\<close>, \<open>endsAt\<close>, \<open>generatorURL\<close>, \<open>status\<close>, \<open>state\<close>,
  \<open>silencedBy\<close>, \<open>inhibitedBy\<close>, \<open>silenceID\<close>, \<open>id\<close>, \<open>createdBy\<close>,
  \<open>comment\<close>, \<open>matchers\<close>): none of them is a property of a string, an array, a
  number or a boolean, or inherited from \<open>Object.prototype\<close>, so only an object's own
  property answers. \<open>length\<close> is read by \<open>length_gt_0\<close> below.
\<close>

fun get_prop :: "'n jsval \<Rightarrow> string \<Rightarrow> thrown + 'n jsval" where
  "get_prop Undefined k = Inl (cannot_read ''undefined'' k)"
| "get_prop Null k = Inl (cannot_read ''null'' k)"
| "get_prop (Obj kvs) k = Inr (field kvs k)"
| "get_prop v k = Inr Undefined"

text \<open>\<open>v.k1.k2\<close>: a chain of reads, left to right.\<close>

fun get_path :: "'n jsval \<Rightarrow> string list \<Rightarrow> thrown + 'n jsval" where
  "get_path v [] = Inr v"
| "get_path v (k # ks) = and_then (get_prop v k) (\<lambda>w. get_path w ks)"

text \<open>
  The engine's coercions where they depend on numbers or on \<open>ToPrimitive\<close>, and
  \<open>JSON.stringify\<close>: parameters of the model. Every theorem holds for any engine.
  \<open>JSON_stringify\<close> is \<open>JSON.stringify(v)\<close>, \<open>JSON_stringify_2\<close> is
  \<open>JSON.stringify(v, null, 2)\<close>.
\<close>

record 'n js_engine =
  number_truthy :: "'n \<Rightarrow> bool"
  coerce_gt_0 :: "'n jsval \<Rightarrow> thrown + bool"
  coerce_string :: "'n jsval \<Rightarrow> thrown + string"
  JSON_stringify :: "'n jsval \<Rightarrow> string"
  JSON_stringify_2 :: "'n jsval \<Rightarrow> string"

text \<open>\<open>ToBoolean\<close>: what \<open>||\<close>, \<open>!\<close> and \<open>if\<close> test.\<close>

fun truthy :: "'n js_engine \<Rightarrow> 'n jsval \<Rightarrow> bool" where
  "truthy eng Undefined = False"
| "truthy eng Null = False"
| "truthy eng (Bool b) = b"
| "truthy eng (Num n) = number_truthy eng n"
| "truthy eng (Str s) = (s \<noteq> [])"
| "truthy eng (Arr xs) = True"
| "truthy eng (Obj kvs) = True"

text \<open>\<open>a || b\<close> with \<open>b\<close> a literal.\<close>

definition or_else :: "'n js_engine \<Rightarrow> 'n jsval \<Rightarrow> 'n jsval \<Rightarrow> 'n jsval" where
  "or_else eng a b = (if truthy eng a then a else b)"

text \<open>
  \<open>v.length > 0\<close>. An array and a string have a \<open>length\<close> of their own; a number and
  a boolean have none (\<open>undefined > 0\<close> is false); an object answers with its
  \<open>length\<close> property, whatever it holds, compared by the engine.
\<close>

fun length_gt_0 :: "'n js_engine \<Rightarrow> 'n jsval \<Rightarrow> thrown + bool" where
  "length_gt_0 eng Undefined = Inl (cannot_read ''undefined'' ''length'')"
| "length_gt_0 eng Null = Inl (cannot_read ''null'' ''length'')"
| "length_gt_0 eng (Arr xs) = Inr (xs \<noteq> [])"
| "length_gt_0 eng (Str s) = Inr (s \<noteq> [])"
| "length_gt_0 eng (Obj kvs) =
     (case map_of kvs ''length'' of None \<Rightarrow> Inr False | Some x \<Rightarrow> coerce_gt_0 eng x)"
| "length_gt_0 eng v = Inr False"

text \<open>\<open>${v}\<close> in a template literal.\<close>

fun template :: "'n js_engine \<Rightarrow> 'n jsval \<Rightarrow> thrown + string" where
  "template eng (Str s) = Inr s"
| "template eng Undefined = Inr ''undefined''"
| "template eng Null = Inr ''null''"
| "template eng (Bool b) = Inr (if b then ''true'' else ''false'')"
| "template eng v = coerce_string eng v"

text \<open>\<open>xs.map(f)\<close> on the elements: the first exception of \<open>f\<close> ends the loop.\<close>

fun map_throwing :: "('a \<Rightarrow> 'e + 'b) \<Rightarrow> 'a list \<Rightarrow> 'e + 'b list" where
  "map_throwing f [] = Inr []"
| "map_throwing f (x # xs) =
     and_then (f x) (\<lambda>y. and_then (map_throwing f xs) (\<lambda>ys. Inr (y # ys)))"

text \<open>
  \<open>v.map(f)\<close> where the source names the receiver \<open>name\<close>: only an array has a
  callable \<open>map\<close>.
\<close>

fun array_map :: "string \<Rightarrow> 'n jsval \<Rightarrow> ('n jsval \<Rightarrow> thrown + 'n jsval) \<Rightarrow> thrown + 'n jsval" where
  "array_map name (Arr xs) f = and_then (map_throwing f xs) (\<lambda>ys. Inr (Arr ys))"
| "array_map name Undefined f = Inl (cannot_read ''undefined'' ''map'')"
| "array_map name Null f = Inl (cannot_read ''null'' ''map'')"
| "array_map name v f = Inl (ErrorInstance (name @ ''.map is not a function''))"

text \<open>\<open>xs.find(p)\<close> on the elements: the first element \<open>p\<close> accepts, else \<open>undefined\<close>.\<close>

fun find_throwing :: "('n jsval \<Rightarrow> thrown + bool) \<Rightarrow> 'n jsval list \<Rightarrow> thrown + 'n jsval" where
  "find_throwing p [] = Inr Undefined"
| "find_throwing p (x # xs) =
     and_then (p x) (\<lambda>b. if b then Inr x else find_throwing p xs)"

fun array_find :: "string \<Rightarrow> 'n jsval \<Rightarrow> ('n jsval \<Rightarrow> thrown + bool) \<Rightarrow> thrown + 'n jsval" where
  "array_find name (Arr xs) p = find_throwing p xs"
| "array_find name Undefined p = Inl (cannot_read ''undefined'' ''find'')"
| "array_find name Null p = Inl (cannot_read ''null'' ''find'')"
| "array_find name v p = Inl (ErrorInstance (name @ ''.find is not a function''))"

section \<open>The types of the source, as shapes of run-time values\<close>

text \<open>
  \<open>interface AlertLabel { [key: string]: string }\<close> (and \<open>AlertAnnotation\<close>): an
  object whose properties are all strings.
\<close>

fun is_string :: "'n jsval \<Rightarrow> bool" where
  "is_string (Str s) = True"
| "is_string v = False"

fun is_string_map :: "'n jsval \<Rightarrow> bool" where
  "is_string_map (Obj kvs) = list_all (\<lambda>kv. is_string (snd kv)) kvs"
| "is_string_map v = False"

fun is_string_array :: "'n jsval \<Rightarrow> bool" where
  "is_string_array (Arr xs) = list_all is_string xs"
| "is_string_array v = False"

text \<open>\<open>interface AlertStatus\<close>\<close>

fun is_AlertStatus :: "'n jsval \<Rightarrow> bool" where
  "is_AlertStatus (Obj kvs) =
     (is_string (field kvs ''state'') \<and>
      is_string_array (field kvs ''silencedBy'') \<and>
      is_string_array (field kvs ''inhibitedBy''))"
| "is_AlertStatus v = False"

text \<open>\<open>interface Alert\<close>\<close>

fun is_Alert :: "'n jsval \<Rightarrow> bool" where
  "is_Alert (Obj kvs) =
     (is_string (field kvs ''fingerprint'') \<and>
      is_AlertStatus (field kvs ''status'') \<and>
      is_string_map (field kvs ''labels'') \<and>
      is_string_map (field kvs ''annotations'') \<and>
      is_string (field kvs ''startsAt'') \<and>
      is_string (field kvs ''endsAt'') \<and>
      is_string (field kvs ''generatorURL''))"
| "is_Alert v = False"

section \<open>get-alerts: the projection of an alert\<close>

text \<open>
  The callback of \<open>alerts.map\<close> in \<open>get-alerts\<close>. The object literal evaluates its
  properties in the order written; a read of a property of \<open>undefined\<close> or \<open>null\<close>
  throws.
\<close>

definition formatAlert :: "'n js_engine \<Rightarrow> 'n jsval \<Rightarrow> thrown + 'n jsval" where
  "formatAlert eng alert =
     and_then (get_path alert [''fingerprint'']) (\<lambda>fingerprint.
     and_then (get_path alert [''labels'', ''alertname'']) (\<lambda>alertname.
     and_then (get_path alert [''labels'', ''severity'']) (\<lambda>severity.
     and_then (get_path alert [''annotations'', ''summary'']) (\<lambda>summary.
     and_then (get_path alert [''annotations'', ''description'']) (\<lambda>description.
     and_then (get_path alert [''startsAt'']) (\<lambda>startsAt.
     and_then (get_path alert [''status'', ''state'']) (\<lambda>state.
     and_then (get_path alert [''status'', ''silencedBy'']) (\<lambda>silencedBy.
     and_then (length_gt_0 eng silencedBy) (\<lambda>silenced.
     and_then (get_path alert [''status'', ''inhibitedBy'']) (\<lambda>inhibitedBy.
     and_then (length_gt_0 eng inhibitedBy) (\<lambda>inhibited.
     and_then (get_path alert [''labels'']) (\<lambda>labels.
       Inr (Obj
         [(''fingerprint'', fingerprint),
          (''alertname'', alertname),
          (''severity'', or_else eng severity (Str ''unknown'')),
          (''summary'', or_else eng summary (Str ''No summary provided'')),
          (''description'', or_else eng description (Str ''No description provided'')),
          (''startsAt'', startsAt),
          (''status'', Obj
             [(''state'', state),
              (''silenced'', Bool silenced),
              (''inhibited'', Bool inhibited)]),
          (''labels'', labels)])))))))))))))"

section \<open>The upstream client\<close>

text \<open>\<open>RequestInit\<close>, as far as the handlers fill it; \<open>options = {}\<close> is \<open>no_options\<close>.\<close>

record request_init =
  http_method :: "string option"
  http_headers :: "(string \<times> string) list"
  http_body :: "string option"

definition no_options :: request_init where
  "no_options = \<lparr>http_method = None, http_headers = [], http_body = None\<rparr>"

record request =
  req_url :: string
  req_init :: request_init

text \<open>
  A \<open>Response\<close>: its \<open>status\<close>, its \<open>statusText\<close>, and what \<open>response.json()\<close>
  gives (the parsed body, or the exception of a body that is not JSON).
\<close>

record 'n response =
  status :: nat
  statusText :: string
  json :: "thrown + 'n jsval"

text \<open>
  \<open>fetch\<close> rejects (no connection, or the abort of the 10 second timer) or resolves
  with a response. The network and the upstream service, as one call sees them, are a
  function from the request to that outcome.
\<close>

datatype 'n fetch_result = Rejected thrown | Resolved "'n response"

type_synonym 'n upstream = "request \<Rightarrow> 'n fetch_result"

text \<open>What a call does besides returning: requests sent, lines written to stderr.\<close>

datatype effect = Fetch request | ConsoleError string

fun is_Fetch :: "effect \<Rightarrow> bool" where
  "is_Fetch (Fetch r) = True"
| "is_Fetch (ConsoleError l) = False"

text \<open>\<open>response.ok\<close>\<close>

definition ok :: "'n response \<Rightarrow> bool" where
  "ok r \<longleftrightarrow> 200 \<le> status r \<and> status r \<le> 299"

text \<open>\<open>${response.status}\<close>: a status code in decimal.\<close>

fun show_nat :: "nat \<Rightarrow> string" where
  "show_nat n =
     (if n < 10 then [char_of (48 + n)]
      else show_nat (n div 10) @ [char_of (48 + n mod 10)])"

definition DEFAULT_ALERTMANAGER_URL :: string where
  "DEFAULT_ALERTMANAGER_URL = ''http://localhost:9093''"

text \<open>\<open>process.env.ALERTMANAGER_URL || DEFAULT_ALERTMANAGER_URL\<close>\<close>

definition baseUrl :: "string option \<Rightarrow> string" where
  "baseUrl env =
     (case env of
        None \<Rightarrow> DEFAULT_ALERTMANAGER_URL
      | Some u \<Rightarrow> if u \<noteq> [] then u else DEFAULT_ALERTMANAGER_URL)"

text \<open>
  \<open>fetchFromAlertmanager\<close>: one \<open>fetch\<close>; a response that is not \<open>ok\<close> throws;
  otherwise \<open>response.json()\<close> returns or throws. The \<open>catch\<close> logs and rethrows.
\<close>

definition fetchFromAlertmanager ::
  "string option \<Rightarrow> 'n upstream \<Rightarrow> string \<Rightarrow> request_init \<Rightarrow> effect list \<times> (thrown + 'n jsval)" where
  "fetchFromAlertmanager env net path options =
     (let request = \<lparr>req_url = baseUrl env @ ''/api/v2/'' @ path, req_init = options\<rparr>;
          outcome =
            (case net request of
               Rejected error \<Rightarrow> Inl error
             | Resolved response \<Rightarrow>
                 if \<not> ok response
                 then Inl (ErrorInstance (''Alertmanager API error: '' @
                        show_nat (status response) @ '' '' @ statusText response))
                 else json response)
      in case outcome of
           Inl error \<Rightarrow>
             ([Fetch request,
               ConsoleError (''Error fetching from Alertmanager: '' @ errorMessage error)],
              Inl error)
         | Inr parsed \<Rightarrow> ([Fetch request], Inr parsed))"

section \<open>The envelope\<close>

record content_block =
  block_type :: string
  block_text :: string

text \<open>\<open>isError\<close> is \<open>None\<close> where the object literal has no such property.\<close>

record envelope =
  content :: "content_block list"
  isError :: "bool option"

definition success :: "string \<Rightarrow> envelope" where
  "success t = \<lparr>content = [\<lparr>block_type = ''text'', block_text = t\<rparr>], isError = None\<rparr>"

definition failure :: "string \<Rightarrow> envelope" where
  "failure t = \<lparr>content = [\<lparr>block_type = ''text'', block_text = t\<rparr>], isError = Some True\<rparr>"

text \<open>
  The \<open>try { ... } catch (error: unknown) { ... }\<close> that is the whole body of every
  handler: what the block returns, or the failure envelope with the handler's prefix.
\<close>

definition try_catch :: "string \<Rightarrow> thrown + envelope \<Rightarrow> envelope" where
  "try_catch prefix block =
     (case block of
        Inl error \<Rightarrow> failure (prefix @ errorMessage error)
      | Inr returned \<Rightarrow> returned)"

section \<open>Query strings\<close>

text \<open>
  \<open>URLSearchParams\<close>: the list of pairs, and \<open>toString()\<close>, the
  \<open>application/x-www-form-urlencoded\<close> serialiser: a space becomes \<open>+\<close>, letters,
  digits and \<open>*-._\<close> stay, every other byte becomes \<open>%XX\<close>.
\<close>

definition append_param :: "(string \<times> string) list \<Rightarrow> string \<Rightarrow> string \<Rightarrow> (string \<times> string) list" where
  "append_param params k v = params @ [(k, v)]"

definition hex_digit :: "nat \<Rightarrow> char" where
  "hex_digit n = (if n < 10 then char_of (48 + n) else char_of (55 + n))"

definition urlencode_byte :: "char \<Rightarrow> string" where
  "urlencode_byte c =
     (if c = CHR '' '' then ''+''
      else if c \<in> set ''*-._0123456789ABCDEFGHIJKLMNOPQRSTUVWXYZabcdefghijklmnopqrstuvwxyz''
      then [c]
      else [CHR ''%'', hex_digit (of_char c div 16), hex_digit (of_char c mod 16)])"

definition urlencode :: "string \<Rightarrow> string" where
  "urlencode s = concat (map urlencode_byte s)"

fun toString :: "(string \<times> string) list \<Rightarrow> string" where
  "toString [] = []"
| "toString [(k, v)] = urlencode k @ ''='' @ urlencode v"
| "toString ((k, v) # rest) = urlencode k @ ''='' @ urlencode v @ ''&'' @ toString rest"

text \<open>\<open>`${name}${queryString ? '?' + queryString : ''}`\<close>\<close>

definition with_query :: "string \<Rightarrow> string \<Rightarrow> string" where
  "with_query name queryString = name @ (if queryString \<noteq> [] then ''?'' @ queryString else [])"

text \<open>A destructuring default, \<open>{ x = d }\<close>: \<open>d\<close> when the argument is \<open>undefined\<close>.\<close>

fun defaulted :: "'a option \<Rightarrow> 'a \<Rightarrow> 'a" where
  "defaulted None d = d"
| "defaulted (Some x) d = x"

text \<open>\<open>if (filter) params.append("filter", filter)\<close>: an empty string is falsy.\<close>

fun append_filter :: "(string \<times> string) list \<Rightarrow> string option \<Rightarrow> (string \<times> string) list" where
  "append_filter params None = params"
| "append_filter params (Some f) = (if f \<noteq> [] then append_param params ''filter'' f else params)"

section \<open>The six handlers\<close>

text \<open>
  A handler receives the arguments the host has validated against the schema, so an
  optional argument is an \<open>option\<close>. It returns what it did and its envelope.
\<close>

subsection \<open>get-alerts\<close>

record get_alerts_args =
  ga_filter :: "string option"
  ga_silenced :: "bool option"
  ga_inhibited :: "bool option"
  ga_active :: "bool option"

definition get_alerts_params :: "get_alerts_args \<Rightarrow> (string \<times> string) list" where
  "get_alerts_params args =
     (let silenced = defaulted (ga_silenced args) False;
          inhibited = defaulted (ga_inhibited args) False;
          active = defaulted (ga_active args) True;
          params = [];
          params = append_filter params (ga_filter args);
          params = (if silenced then append_param params ''silenced'' ''true'' else params);
          params = (if inhibited then append_param params ''inhibited'' ''true'' else params);
          params = (if \<not> active then append_param params ''active'' ''false'' else params)
      in params)"

definition get_alerts ::
  "'n js_engine \<Rightarrow> string option \<Rightarrow> 'n upstream \<Rightarrow> get_alerts_args \<Rightarrow> effect list \<times> envelope" where
  "get_alerts eng env net args =
     (let queryString = toString (get_alerts_params args);
          path = with_query ''alerts'' queryString
      in case fetchFromAlertmanager env net path no_options of
           (effects, fetched) \<Rightarrow>
             (effects,
              try_catch ''Error fetching alerts: ''
                (and_then fetched (\<lambda>alerts.
                 and_then (array_map ''alerts'' alerts (formatAlert eng)) (\<lambda>formattedAlerts.
                   Inr (success (JSON_stringify_2 eng formattedAlerts)))))))"

subsection \<open>get-alert-details\<close>

text \<open>The object literal \<open>details\<close>.\<close>

definition alertDetails :: "'n jsval \<Rightarrow> thrown + 'n jsval" where
  "alertDetails alert =
     and_then (get_path alert [''fingerprint'']) (\<lambda>fingerprint.
     and_then (get_path alert [''labels'', ''alertname'']) (\<lambda>alertname.
     and_then (get_path alert [''labels'']) (\<lambda>labels.
     and_then (get_path alert [''annotations'']) (\<lambda>annotations.
     and_then (get_path alert [''startsAt'']) (\<lambda>startsAt.
     and_then (get_path alert [''endsAt'']) (\<lambda>endsAt.
     and_then (get_path alert [''generatorURL'']) (\<lambda>generatorURL.
     and_then (get_path alert [''status'']) (\<lambda>status.
       Inr (Obj
         [(''fingerprint'', fingerprint),
          (''alertname'', alertname),
          (''labels'', labels),
          (''annotations'', annotations),
          (''startsAt'', startsAt),
          (''endsAt'', endsAt),
          (''generatorURL'', generatorURL),
          (''status'', status)])))))))))"

text \<open>\<open>(a: Alert) => a.fingerprint === fingerprint\<close>\<close>

definition has_fingerprint :: "string \<Rightarrow> 'n jsval \<Rightarrow> thrown + bool" where
  "has_fingerprint fingerprint a =
     and_then (get_path a [''fingerprint'']) (\<lambda>f. Inr (f = Str fingerprint))"

definition get_alert_details ::
  "'n js_engine \<Rightarrow> string option \<Rightarrow> 'n upstream \<Rightarrow> string \<Rightarrow> effect list \<times> envelope" where
  "get_alert_details eng env net fingerprint =
     (case fetchFromAlertmanager env net ''alerts'' no_options of
        (effects, fetched) \<Rightarrow>
          (effects,
           try_catch ''Error fetching alert details: ''
             (and_then fetched (\<lambda>alerts.
              and_then (array_find ''alerts'' alerts (has_fingerprint fingerprint)) (\<lambda>alert.
                if \<not> truthy eng alert
                then Inr (failure (''Alert with fingerprint '' @ fingerprint @ '' not found''))
                else and_then (alertDetails alert) (\<lambda>details.
                       Inr (success (JSON_stringify_2 eng details))))))))"

subsection \<open>create-silence\<close>

record matcher =
  m_name :: string
  m_value :: string
  m_isRegex :: "bool option"

record create_silence_args =
  cs_matchers :: "matcher list"
  cs_startsAt :: "string option"
  cs_endsAt :: string
  cs_createdBy :: string
  cs_comment :: string

text \<open>\<open>startsAt || now\<close>: an empty string is falsy.\<close>

fun startsAt_or :: "string option \<Rightarrow> string \<Rightarrow> string" where
  "startsAt_or None now = now"
| "startsAt_or (Some s) now = (if s \<noteq> [] then s else now)"

text \<open>The callback of \<open>matchers.map\<close>; \<open>m.isRegex || false\<close>.\<close>

definition normalizeMatcher :: "matcher \<Rightarrow> 'n jsval" where
  "normalizeMatcher m =
     Obj [(''name'', Str (m_name m)),
          (''value'', Str (m_value m)),
          (''isRegex'', Bool (case m_isRegex m of None \<Rightarrow> False | Some b \<Rightarrow> b \<or> False))]"

text \<open>
  The object literal \<open>silenceData\<close>; \<open>now\<close> is \<open>new Date().toISOString()\<close>, read
  once before the literal.
\<close>

definition silenceData :: "string \<Rightarrow> create_silence_args \<Rightarrow> 'n jsval" where
  "silenceData now args =
     Obj [(''matchers'', Arr (map normalizeMatcher (cs_matchers args))),
          (''startsAt'', Str (startsAt_or (cs_startsAt args) now)),
          (''endsAt'', Str (cs_endsAt args)),
          (''createdBy'', Str (cs_createdBy args)),
          (''comment'', Str (cs_comment args))]"

definition create_silence ::
  "'n js_engine \<Rightarrow> string \<Rightarrow> string option \<Rightarrow> 'n upstream \<Rightarrow> create_silence_args \<Rightarrow> effect list \<times> envelope" where
  "create_silence eng now env net args =
     (case fetchFromAlertmanager env net ''silences''
             \<lparr>http_method = Some ''POST'',
              http_headers = [(''Content-Type'', ''application/json'')],
              http_body = Some (JSON_stringify eng (silenceData now args))\<rparr> of
        (effects, fetched) \<Rightarrow>
          (effects,
           try_catch ''Error creating silence: ''
             (and_then fetched (\<lambda>response.
              and_then (get_path response [''silenceID'']) (\<lambda>silenceID.
              and_then (template eng silenceID) (\<lambda>shown.
                Inr (success (''Successfully created silence with ID: '' @ shown))))))))"

subsection \<open>get-silences\<close>

text \<open>The callback of \<open>silences.map\<close>.\<close>

definition formatSilence :: "'n jsval \<Rightarrow> thrown + 'n jsval" where
  "formatSilence silence =
     and_then (get_path silence [''id'']) (\<lambda>id.
     and_then (get_path silence [''status'', ''state'']) (\<lambda>state.
     and_then (get_path silence [''createdBy'']) (\<lambda>createdBy.
     and_then (get_path silence [''comment'']) (\<lambda>comment.
     and_then (get_path silence [''startsAt'']) (\<lambda>startsAt.
     and_then (get_path silence [''endsAt'']) (\<lambda>endsAt.
     and_then (get_path silence [''matchers'']) (\<lambda>matchers.
       Inr (Obj
         [(''id'', id),
          (''status'', state),
          (''createdBy'', createdBy),
          (''comment'', comment),
          (''startsAt'', startsAt),
          (''endsAt'', endsAt),
          (''matchers'', matchers)]))))))))"

definition get_silences ::
  "'n js_engine \<Rightarrow> string option \<Rightarrow> 'n upstream \<Rightarrow> string option \<Rightarrow> effect list \<times> envelope" where
  "get_silences eng env net filter_arg =
     (let params = append_filter [] filter_arg;
          queryString = toString params;
          path = with_query ''silences'' queryString
      in case fetchFromAlertmanager env net path no_options of
           (effects, fetched) \<Rightarrow>
             (effects,
              try_catch ''Error fetching silences: ''
                (and_then fetched (\<lambda>silences.
                 and_then (array_map ''silences'' silences formatSilence) (\<lambda>formattedSilences.
                   Inr (success (JSON_stringify_2 eng formattedSilences)))))))"

subsection \<open>delete-silence\<close>

definition delete_silence ::
  "string option \<Rightarrow> 'n upstream \<Rightarrow> string \<Rightarrow> effect list \<times> envelope" where
  "delete_silence env net silenceId =
     (case fetchFromAlertmanager env net (''silence/'' @ silenceId)
             \<lparr>http_method = Some ''DELETE'', http_headers = [], http_body = None\<rparr> of
        (effects, fetched) \<Rightarrow>
          (effects,
           try_catch ''Error deleting silence: ''
             (and_then fetched (\<lambda>discarded.
                Inr (success (''Successfully deleted silence with ID: '' @ silenceId))))))"

subsection \<open>get-alert-groups\<close>

record get_alert_groups_args =
  gg_active :: "bool option"
  gg_silenced :: "bool option"
  gg_inhibited :: "bool option"

definition get_alert_groups_params :: "get_alert_groups_args \<Rightarrow> (string \<times> string) list" where
  "get_alert_groups_params args =
     (let active = defaulted (gg_active args) True;
          silenced = defaulted (gg_silenced args) False;
          inhibited = defaulted (gg_inhibited args) False;
          params = [];
          params = (if \<not> active then append_param params ''active'' ''false'' else params);
          params = (if silenced then append_param params ''silenced'' ''true'' else params);
          params = (if inhibited then append_param params ''inhibited'' ''true'' else params)
      in params)"

definition get_alert_groups ::
  "'n js_engine \<Rightarrow> string option \<Rightarrow> 'n upstream \<Rightarrow> get_alert_groups_args \<Rightarrow> effect list \<times> envelope" where
  "get_alert_groups eng env net args =
     (let queryString = toString (get_alert_groups_params args);
          path = with_query ''alerts/groups'' queryString
      in case fetchFromAlertmanager env net path no_options of
           (effects, fetched) \<Rightarrow>
             (effects,
              try_catch ''Error fetching alert groups: ''
                (and_then fetched (\<lambda>groups.
                   Inr (success (JSON_stringify_2 eng groups))))))"

section \<open>The input schema of create-silence\<close>

text \<open>
  The host validates the raw arguments against \<open>z.object({ ... })\<close> of the declared
  shape before it calls the handler. \<open>z.string()\<close> and \<open>z.boolean()\<close> accept a value
  of that type only, \<open>.optional()\<close> also accepts \<open>undefined\<close> (a property that is not
  there), \<open>z.array(s)\<close> accepts an array whose elements \<open>s\<close> accepts, and
  \<open>z.object\<close> accepts an object, reads the declared properties and drops the others.
  \<open>None\<close> is a validation error.
\<close>

fun z_string :: "'n jsval \<Rightarrow> string option" where
  "z_string (Str s) = Some s"
| "z_string v = None"

fun z_boolean :: "'n jsval \<Rightarrow> bool option" where
  "z_boolean (Bool b) = Some b"
| "z_boolean v = None"

fun z_optional :: "('n jsval \<Rightarrow> 'a option) \<Rightarrow> 'n jsval \<Rightarrow> 'a option option" where
  "z_optional s Undefined = Some None"
| "z_optional s v = map_option Some (s v)"

fun z_array :: "('n jsval \<Rightarrow> 'a option) \<Rightarrow> 'n jsval \<Rightarrow> 'a list option" where
  "z_array s (Arr xs) = those (map s xs)"
| "z_array s v = None"

text \<open>
  \<open>z.object({ name: z.string(), value: z.string(), isRegex: z.boolean().optional() })\<close>
\<close>

fun matcher_schema :: "'n jsval \<Rightarrow> matcher option" where
  "matcher_schema (Obj kvs) =
     Option.bind (z_string (field kvs ''name'')) (\<lambda>name.
     Option.bind (z_string (field kvs ''value'')) (\<lambda>val.
     Option.bind (z_optional z_boolean (field kvs ''isRegex'')) (\<lambda>isRegex.
       Some \<lparr>m_name = name, m_value = val, m_isRegex = isRegex\<rparr>)))"
| "matcher_schema v = None"

text \<open>The shape passed to \<open>server.tool("create-silence", ...)\<close>.\<close>

fun create_silence_schema :: "'n jsval \<Rightarrow> create_silence_args option" where
  "create_silence_schema (Obj kvs) =
     Option.bind (z_array matcher_schema (field kvs ''matchers'')) (\<lambda>matchers.
     Option.bind (z_optional z_string (field kvs ''startsAt'')) (\<lambda>startsAt.
     Option.bind (z_string (field kvs ''endsAt'')) (\<lambda>endsAt.
     Option.bind (z_string (field kvs ''createdBy'')) (\<lambda>createdBy.
     Option.bind (z_string (field kvs ''comment'')) (\<lambda>comment.
       Some \<lparr>cs_matchers = matchers, cs_startsAt = startsAt, cs_endsAt = endsAt,
             cs_createdBy = createdBy, cs_comment = comment\<rparr>)))))"
| "create_silence_schema v = None"

section \<open>Observations used in the statements\<close>

text \<open>An own property of a value, \<open>undefined\<close> when it has none of that name.\<close>

fun own :: "'n jsval \<Rightarrow> string \<Rightarrow> 'n jsval" where
  "own (Obj kvs) k = field kvs k"
| "own v k = Undefined"

text \<open>The property names of an object, in order.\<close>

fun keys :: "'n jsval \<Rightarrow> string list" where
  "keys (Obj kvs) = map fst kvs"
| "keys v = []"

text \<open>The length of an array (0 for any other value).\<close>

fun array_length :: "'n jsval \<Rightarrow> nat" where
  "array_length (Arr xs) = length xs"
| "array_length v = 0"

text \<open>
  An envelope as the protocol expects it: one content block, of type \<open>text\<close>, and
  \<open>isError\<close> either not there or \<open>true\<close>.
\<close>

definition is_envelope :: "envelope \<Rightarrow> bool" where
  "is_envelope e \<longleftrightarrow>
     (case content e of [b] \<Rightarrow> block_type b = ''text'' | _ \<Rightarrow> False) \<and>
     (isError e = None \<or> isError e = Some True)"

text \<open>The requests among the effects of a call.\<close>

definition requests :: "effect list \<Rightarrow> effect list" where
  "requests effects = filter is_Fetch effects"

section \<open>Sample inputs\<close>

text \<open>An engine, an alert and an upstream answering with that alert, to evaluate on.\<close>

definition example_engine :: "nat js_engine" where
  "example_engine =
     \<lparr>number_truthy = (\<lambda>n. n \<noteq> 0),
      coerce_gt_0 = (\<lambda>v. Inr False),
      coerce_string = (\<lambda>v. Inr ''[object Object]''),
      JSON_stringify = (\<lambda>v. ''{}''),
      JSON_stringify_2 = (\<lambda>v. ''{}'')\<rparr>"

definition example_alert :: "nat jsval" where
  "example_alert =
     Obj [(''fingerprint'', Str ''a1b2''),
          (''status'', Obj [(''state'', Str ''suppressed''),
                            (''silencedBy'', Arr [Str ''s-1'']),
                            (''inhibitedBy'', Arr [])]),
          (''labels'', Obj [(''alertname'', Str ''HighCPULoad''), (''severity'', Str [])]),
          (''annotations'', Obj [(''summary'', Str ''load is high'')]),
          (''startsAt'', Str ''2024-01-01T00:00:00Z''),
          (''endsAt'', Str ''0001-01-01T00:00:00Z''),
          (''generatorURL'', Str ''http://prometheus/graph'')]"

definition example_upstream :: "nat upstream" where
  "example_upstream request =
     Resolved \<lparr>status = 200, statusText = ''OK'', json = Inr (Arr [example_alert])\<rparr>"

text \<open>
  Upstreams that do not answer, answer 404, answer 200 with an empty body (what
  \<open>response.json()\<close> throws on it is V8's message) and answer 200 with the body
  \<open>null\<close>; and the arguments of the \<open>create-silence\<close> example of the specification.
\<close>

definition example_unreachable :: "nat upstream" where
  "example_unreachable request = Rejected (ErrorInstance ''fetch failed'')"

definition example_not_found :: "nat upstream" where
  "example_not_found request =
     Resolved \<lparr>status = 404, statusText = ''Not Found'',
               json = Inr (Obj [(''code'', Num 404)])\<rparr>"

definition example_empty_body :: "nat upstream" where
  "example_empty_body request =
     Resolved \<lparr>status = 200, statusText = ''OK'',
               json = Inl (ErrorInstance ''Unexpected end of JSON input'')\<rparr>"

definition example_null_body :: "nat upstream" where
  "example_null_body request =
     Resolved \<lparr>status = 200, statusText = ''OK'', json = Inr Null\<rparr>"

definition example_silence_args :: create_silence_args where
  "example_silence_args =
     \<lparr>cs_matchers = [\<lparr>m_name = ''alertname'', m_value = ''X'', m_isRegex = None\<rparr>],
      cs_startsAt = None,
      cs_endsAt = ''2030-01-01T00:00:00Z'',
      cs_createdBy = ''u'',
      cs_comment = ''c''\<rparr>"

text \<open>\<open>get-alerts({})\<close>: no filter and no flag.\<close>

definition example_no_flags :: get_alerts_args where
  "example_no_flags =
     \<lparr>ga_filter = None, ga_silenced = None, ga_inhibited = None, ga_active = None\<rparr>"

text \<open>The same arguments as the host receives them, before validation.\<close>

definition example_silence_input :: "nat jsval" where
  "example_silence_input =
     Obj [(''matchers'', Arr [Obj [(''name'', Str ''alertname''), (''value'', Str ''X'')]]),
          (''endsAt'', Str ''2030-01-01T00:00:00Z''),
          (''createdBy'', Str ''u''),
          (''comment'', Str ''c'')]"

section \<open>Values of the types of the source\<close>

declare show_nat.simps [simp del]

lemma is_string_cases: "is_string v \<Longrightarrow> \<exists>s. v = Str s"
  by (cases v) auto

lemma is_string_array_cases: "is_string_array v \<Longrightarrow> \<exists>xs. v = Arr xs"
  by (cases v) auto

lemma is_string_map_cases: "is_string_map v \<Longrightarrow> \<exists>kvs. v = Obj kvs"
  by (cases v) auto

lemma is_AlertStatus_cases: "is_AlertStatus v \<Longrightarrow> \<exists>kvs. v = Obj kvs"
  by (cases v) auto

lemma is_Alert_cases: "is_Alert v \<Longrightarrow> \<exists>kvs. v = Obj kvs"
  by (cases v) auto

lemma is_Alert_labels: "is_Alert alert \<Longrightarrow> is_string_map (own alert ''labels'')"
  by (cases alert) auto

lemma is_Alert_annotations: "is_Alert alert \<Longrightarrow> is_string_map (own alert ''annotations'')"
  by (cases alert) auto

lemma is_Alert_truthy: "is_Alert alert \<Longrightarrow> truthy eng alert"
  by (cases alert) auto

lemma is_Alert_example: "is_Alert example_alert"
  by (simp add: example_alert_def field_def)

text \<open>A property of a label or annotation object is a string, or is not there.\<close>

lemma string_map_own:
  assumes "is_string_map m"
  shows "own m k = Undefined \<or> (\<exists>s. own m k = Str s)"
proof -
  from assms obtain kvs where m: "m = Obj kvs" using is_string_map_cases by blast
  show ?thesis
  proof (cases "map_of kvs k")
    case None
    then show ?thesis by (simp add: m field_def)
  next
    case (Some x)
    then have "(k, x) \<in> set kvs" by (rule map_of_SomeD)
    with assms m have "is_string x" by (auto simp: list_all_iff)
    then show ?thesis using Some is_string_cases by (auto simp: m field_def)
  qed
qed

lemma or_else_string_map:
  assumes "is_string_map m"
  shows "or_else eng (own m k) (Str d) =
           (if own m k = Undefined \<or> own m k = Str [] then Str d else own m k)"
  using string_map_own [OF assms, of k] by (auto simp: or_else_def)

section \<open>The projection of get-alerts\<close>

text \<open>On an \<open>Alert\<close> no read throws, and the projection is this object.\<close>

lemma formatAlert_Alert:
  assumes "is_Alert alert"
  shows "formatAlert eng alert = Inr (Obj
         [(''fingerprint'', own alert ''fingerprint''),
          (''alertname'', own (own alert ''labels'') ''alertname''),
          (''severity'',
             or_else eng (own (own alert ''labels'') ''severity'') (Str ''unknown'')),
          (''summary'',
             or_else eng (own (own alert ''annotations'') ''summary'')
               (Str ''No summary provided'')),
          (''description'',
             or_else eng (own (own alert ''annotations'') ''description'')
               (Str ''No description provided'')),
          (''startsAt'', own alert ''startsAt''),
          (''status'', Obj
             [(''state'', own (own alert ''status'') ''state''),
              (''silenced'',
                 Bool (0 < array_length (own (own alert ''status'') ''silencedBy''))),
              (''inhibited'',
                 Bool (0 < array_length (own (own alert ''status'') ''inhibitedBy'')))]),
          (''labels'', own alert ''labels'')])"
proof -
  from assms obtain kvs where a: "alert = Obj kvs" using is_Alert_cases by blast
  from assms a obtain st where st: "field kvs ''status'' = Obj st"
    using is_AlertStatus_cases by fastforce
  from assms a obtain ls where ls: "field kvs ''labels'' = Obj ls"
    using is_string_map_cases by fastforce
  from assms a obtain ans where ans: "field kvs ''annotations'' = Obj ans"
    using is_string_map_cases by fastforce
  from assms a st obtain sb where sb: "field st ''silencedBy'' = Arr sb"
    using is_string_array_cases by fastforce
  from assms a st obtain ib where ib: "field st ''inhibitedBy'' = Arr ib"
    using is_string_array_cases by fastforce
  show ?thesis
    by (simp add: formatAlert_def a st ls ans sb ib)
qed

text \<open>What the projection of one \<open>Alert\<close> holds: the defaulted properties.\<close>

lemma formatAlert_defaults:
  assumes "is_Alert alert"
  shows "case formatAlert eng alert of
           Inl error \<Rightarrow> False
         | Inr out \<Rightarrow>
             (own (own alert ''labels'') ''severity'' = Undefined \<longrightarrow>
                own out ''severity'' = Str ''unknown'') \<and>
             (own out ''severity'' = own (own alert ''labels'') ''severity'' \<or>
                own out ''severity'' = Str ''unknown'') \<and>
             (own (own alert ''labels'') ''severity'' \<noteq> Undefined \<and>
              own (own alert ''labels'') ''severity'' \<noteq> Str [] \<longrightarrow>
                own out ''severity'' = own (own alert ''labels'') ''severity'') \<and>
             (own (own alert ''annotations'') ''summary'' = Undefined \<longrightarrow>
                own out ''summary'' = Str ''No summary provided'') \<and>
             (own out ''summary'' = own (own alert ''annotations'') ''summary'' \<or>
                own out ''summary'' = Str ''No summary provided'') \<and>
             (own (own alert ''annotations'') ''summary'' \<noteq> Undefined \<and>
              own (own alert ''annotations'') ''summary'' \<noteq> Str [] \<longrightarrow>
                own out ''summary'' = own (own alert ''annotations'') ''summary'') \<and>
             (own (own alert ''annotations'') ''description'' = Undefined \<longrightarrow>
                own out ''description'' = Str ''No description provided'') \<and>
             (own out ''description'' = own (own alert ''annotations'') ''description'' \<or>
                own out ''description'' = Str ''No description provided'') \<and>
             (own (own alert ''annotations'') ''description'' \<noteq> Undefined \<and>
              own (own alert ''annotations'') ''description'' \<noteq> Str [] \<longrightarrow>
                own out ''description'' = own (own alert ''annotations'') ''description'') \<and>
             (own (own out ''status'') ''silenced'' = Bool True \<longleftrightarrow>
                0 < array_length (own (own alert ''status'') ''silencedBy'')) \<and>
             (own (own out ''status'') ''inhibited'' = Bool True \<longleftrightarrow>
                0 < array_length (own (own alert ''status'') ''inhibitedBy''))"
proof -
  note l = or_else_string_map [OF is_Alert_labels [OF assms]]
  note a = or_else_string_map [OF is_Alert_annotations [OF assms]]
  show ?thesis
    by (simp add: formatAlert_Alert [OF assms] field_def l a)
qed

text \<open>Its property names, and the properties copied from the alert.\<close>

lemma formatAlert_keys:
  assumes "is_Alert alert"
  shows "case formatAlert eng alert of
           Inl error \<Rightarrow> False
         | Inr out \<Rightarrow>
             keys out = [''fingerprint'', ''alertname'', ''severity'', ''summary'',
                         ''description'', ''startsAt'', ''status'', ''labels''] \<and>
             keys (own out ''status'') = [''state'', ''silenced'', ''inhibited''] \<and>
             own out ''endsAt'' = Undefined \<and>
             own out ''generatorURL'' = Undefined \<and>
             own out ''annotations'' = Undefined \<and>
             own out ''fingerprint'' = own alert ''fingerprint'' \<and>
             own out ''alertname'' = own (own alert ''labels'') ''alertname'' \<and>
             own out ''startsAt'' = own alert ''startsAt'' \<and>
             own (own out ''status'') ''state'' = own (own alert ''status'') ''state'' \<and>
             own out ''labels'' = own alert ''labels''"
  by (simp add: formatAlert_Alert [OF assms] field_def)

text \<open>The defaults at the empty string.\<close>

lemma formatAlert_empty_strings:
  assumes "is_Alert alert"
  shows "case formatAlert eng alert of
           Inl error \<Rightarrow> False
         | Inr out \<Rightarrow>
             (own (own alert ''labels'') ''severity'' = Str [] \<longrightarrow>
                own out ''severity'' = Str ''unknown'') \<and>
             (own (own alert ''annotations'') ''summary'' = Str [] \<longrightarrow>
                own out ''summary'' = Str ''No summary provided'') \<and>
             (own (own alert ''annotations'') ''description'' = Str [] \<longrightarrow>
                own out ''description'' = Str ''No description provided'')"
  by (simp add: formatAlert_Alert [OF assms] field_def or_else_def)

section \<open>get-alerts on the alerts of the upstream response\<close>

text \<open>
  When the upstream call returns a list of \<open>Alert\<close>s, the callback of \<open>alerts.map\<close>
  throws on none of them, and the handler returns the success envelope whose payload is
  \<open>JSON.stringify(formattedAlerts, null, 2)\<close>, \<open>formattedAlerts\<close> holding the
  projection of each alert, in order.
\<close>

lemma map_throwing_formatAlert:
  assumes "list_all is_Alert alerts"
  shows "\<exists>outs. map_throwing (formatAlert eng) alerts = Inr outs \<and>
           list_all2 (\<lambda>alert out. is_Alert alert \<and> formatAlert eng alert = Inr out)
             alerts outs"
  using assms
proof (induction alerts)
  case Nil
  then show ?case by simp
next
  case (Cons a alerts)
  then obtain outs where
    outs: "map_throwing (formatAlert eng) alerts = Inr outs"
      "list_all2 (\<lambda>alert out. is_Alert alert \<and> formatAlert eng alert = Inr out) alerts outs"
    by auto
  from Cons.prems have a: "is_Alert a" by simp
  from formatAlert_Alert [OF a, of eng] obtain out where out: "formatAlert eng a = Inr out"
    by blast
  from a out outs show ?case by simp
qed

lemma get_alerts_projects:
  assumes "snd (fetchFromAlertmanager env net
                  (with_query ''alerts'' (toString (get_alerts_params args))) no_options) =
             Inr (Arr alerts)"
    and "list_all is_Alert alerts"
  shows "\<exists>outs. map_throwing (formatAlert eng) alerts = Inr outs \<and>
           snd (get_alerts eng env net args) =
                  success (JSON_stringify_2 eng (Arr outs)) \<and>
           list_all2 (\<lambda>alert out. is_Alert alert \<and> formatAlert eng alert = Inr out)
             alerts outs"
proof -
  from assms(1) obtain effects where
    f: "fetchFromAlertmanager env net
          (with_query ''alerts'' (toString (get_alerts_params args))) no_options =
        (effects, Inr (Arr alerts))"
    by (cases "fetchFromAlertmanager env net
                 (with_query ''alerts'' (toString (get_alerts_params args))) no_options") auto
  from map_throwing_formatAlert [OF assms(2), of eng] obtain outs where
    outs: "map_throwing (formatAlert eng) alerts = Inr outs"
      "list_all2 (\<lambda>alert out. is_Alert alert \<and> formatAlert eng alert = Inr out) alerts outs"
    by blast
  have "snd (get_alerts eng env net args) = success (JSON_stringify_2 eng (Arr outs))"
    by (simp add: get_alerts_def Let_def f outs(1) try_catch_def)
  with outs show ?thesis by blast
qed

lemma example_fetch:
  "snd (fetchFromAlertmanager None example_upstream
          (with_query ''alerts'' (toString (get_alerts_params example_no_flags))) no_options) =
     Inr (Arr [example_alert])"
  by (simp add: fetchFromAlertmanager_def example_upstream_def ok_def)

lemma example_Alerts: "list_all is_Alert [example_alert]"
  by (simp add: is_Alert_example)

lemma example_projected:
  "map_throwing (formatAlert example_engine) [example_alert] =
     Inr [Obj [(''fingerprint'', Str ''a1b2''),
             (''alertname'', Str ''HighCPULoad''),
             (''severity'', Str ''unknown''),
             (''summary'', Str ''load is high''),
             (''description'', Str ''No description provided''),
             (''startsAt'', Str ''2024-01-01T00:00:00Z''),
             (''status'', Obj [(''state'', Str ''suppressed''),
                               (''silenced'', Bool True),
                               (''inhibited'', Bool False)]),
             (''labels'', Obj [(''alertname'', Str ''HighCPULoad''),
                               (''severity'', Str [])])]]"
  by (simp add: example_alert_def formatAlert_def field_def or_else_def)

text \<open>
  Claim C2. Let the upstream call of \<open>get-alerts\<close> return a list of \<open>Alert\<close>s. The
  handler returns the success envelope whose payload is the list of their projections,
  one for every alert of the response, in order, and in the projection of an alert
  \<^item> \<open>severity\<close> is the \<open>severity\<close> label or \<open>"unknown"\<close>: \<open>"unknown"\<close> when the
    alert has no such label, the label when it has one that is not the empty string;
  \<^item> \<open>summary\<close> and \<open>description\<close> are the annotations of those names or the
    placeholders \<open>"No summary provided"\<close> and \<open>"No description provided"\<close>, in the
    same way;
  \<^item> \<open>status.silenced\<close> is \<open>true\<close> iff \<open>silencedBy\<close> has length > 0, and
    \<open>status.inhibited\<close> is \<open>true\<close> iff \<open>inhibitedBy\<close> has length > 0.
\<close>

theorem get_alerts_defaults:
  assumes "snd (fetchFromAlertmanager env net
                  (with_query ''alerts'' (toString (get_alerts_params args))) no_options) =
             Inr (Arr alerts)"
    and "list_all is_Alert alerts"
  shows "\<exists>outs.
           map_throwing (formatAlert eng) alerts = Inr outs \<and>
           snd (get_alerts eng env net args) = success (JSON_stringify_2 eng (Arr outs)) \<and>
           list_all2 (\<lambda>alert out.
             (own (own alert ''labels'') ''severity'' = Undefined \<longrightarrow>
                own out ''severity'' = Str ''unknown'') \<and>
             (own out ''severity'' = own (own alert ''labels'') ''severity'' \<or>
                own out ''severity'' = Str ''unknown'') \<and>
             (own (own alert ''labels'') ''severity'' \<noteq> Undefined \<and>
              own (own alert ''labels'') ''severity'' \<noteq> Str [] \<longrightarrow>
                own out ''severity'' = own (own alert ''labels'') ''severity'') \<and>
             (own (own alert ''annotations'') ''summary'' = Undefined \<longrightarrow>
                own out ''summary'' = Str ''No summary provided'') \<and>
             (own out ''summary'' = own (own alert ''annotations'') ''summary'' \<or>
                own out ''summary'' = Str ''No summary provided'') \<and>
             (own (own alert ''annotations'') ''summary'' \<noteq> Undefined \<and>
              own (own alert ''annotations'') ''summary'' \<noteq> Str [] \<longrightarrow>
                own out ''summary'' = own (own alert ''annotations'') ''summary'') \<and>
             (own (own alert ''annotations'') ''description'' = Undefined \<longrightarrow>
                own out ''description'' = Str ''No description provided'') \<and>
             (own out ''description'' = own (own alert ''annotations'') ''description'' \<or>
                own out ''description'' = Str ''No description provided'') \<and>
             (own (own alert ''annotations'') ''description'' \<noteq> Undefined \<and>
              own (own alert ''annotations'') ''description'' \<noteq> Str [] \<longrightarrow>
                own out ''description'' = own (own alert ''annotations'') ''description'') \<and>
             (own (own out ''status'') ''silenced'' = Bool True \<longleftrightarrow>
                0 < array_length (own (own alert ''status'') ''silencedBy'')) \<and>
             (own (own out ''status'') ''inhibited'' = Bool True \<longleftrightarrow>
                0 < array_length (own (own alert ''status'') ''inhibitedBy''))) alerts outs"
  (is "\<exists>outs. _ \<and> _ \<and> list_all2 ?P alerts outs")
proof -
  from get_alerts_projects [OF assms, of eng] obtain outs where
    m: "map_throwing (formatAlert eng) alerts = Inr outs" and
    e: "snd (get_alerts eng env net args) = success (JSON_stringify_2 eng (Arr outs))" and
    p: "list_all2 (\<lambda>alert out. is_Alert alert \<and> formatAlert eng alert = Inr out) alerts outs"
    by blast
  from p have "list_all2 ?P alerts outs"
  proof (rule list_all2_mono)
    fix alert out
    assume "is_Alert alert \<and> formatAlert eng alert = Inr out"
    then show "?P alert out"
      using formatAlert_defaults [of alert eng] by simp
  qed
  with m e show ?thesis by blast
qed

theorem get_alerts_defaults_witness:
  "snd (fetchFromAlertmanager None example_upstream
          (with_query ''alerts'' (toString (get_alerts_params example_no_flags))) no_options) =
     Inr (Arr [example_alert]) \<and>
   list_all is_Alert [example_alert] \<and>
   snd (get_alerts example_engine None example_upstream example_no_flags) =
     success (JSON_stringify_2 example_engine (Arr
       [Obj [(''fingerprint'', Str ''a1b2''),
             (''alertname'', Str ''HighCPULoad''),
             (''severity'', Str ''unknown''),
             (''summary'', Str ''load is high''),
             (''description'', Str ''No description provided''),
             (''startsAt'', Str ''2024-01-01T00:00:00Z''),
             (''status'', Obj [(''state'', Str ''suppressed''),
                               (''silenced'', Bool True),
                               (''inhibited'', Bool False)]),
             (''labels'', Obj [(''alertname'', Str ''HighCPULoad''),
                               (''severity'', Str [])])]]))"
proof -
  from get_alerts_defaults [OF example_fetch example_Alerts, of example_engine]
  obtain outs where
    m: "map_throwing (formatAlert example_engine) [example_alert] = Inr outs" and
    e: "snd (get_alerts example_engine None example_upstream example_no_flags) =
          success (JSON_stringify_2 example_engine (Arr outs))"
    by blast
  from m have o: "outs =
       [Obj [(''fingerprint'', Str ''a1b2''),
             (''alertname'', Str ''HighCPULoad''),
             (''severity'', Str ''unknown''),
             (''summary'', Str ''load is high''),
             (''description'', Str ''No description provided''),
             (''startsAt'', Str ''2024-01-01T00:00:00Z''),
             (''status'', Obj [(''state'', Str ''suppressed''),
                               (''silenced'', Bool True),
                               (''inhibited'', Bool False)]),
             (''labels'', Obj [(''alertname'', Str ''HighCPULoad''),
                               (''severity'', Str [])])]]"
    by (simp only: example_projected sum.inject)
  from e show ?thesis
    unfolding example_projected
    by (simp add: o example_fetch is_Alert_example field_def)
qed

text \<open>
  Claim C3. Let the upstream call of \<open>get-alerts\<close> return a list of \<open>Alert\<close>s. Every
  element of the payload the handler returns has the properties \<open>fingerprint\<close>,
  \<open>alertname\<close>, \<open>severity\<close>, \<open>summary\<close>, \<open>description\<close>, \<open>startsAt\<close>,
  \<open>status\<close> (with \<open>state\<close>, \<open>silenced\<close>, \<open>inhibited\<close>) and \<open>labels\<close>, and no
  other: it has no \<open>endsAt\<close>, no \<open>generatorURL\<close> and no \<open>annotations\<close>.
\<close>

theorem get_alerts_keys:
  assumes "snd (fetchFromAlertmanager env net
                  (with_query ''alerts'' (toString (get_alerts_params args))) no_options) =
             Inr (Arr alerts)"
    and "list_all is_Alert alerts"
  shows "\<exists>outs.
           map_throwing (formatAlert eng) alerts = Inr outs \<and>
           snd (get_alerts eng env net args) = success (JSON_stringify_2 eng (Arr outs)) \<and>
           list_all2 (\<lambda>alert out.
             keys out = [''fingerprint'', ''alertname'', ''severity'', ''summary'',
                         ''description'', ''startsAt'', ''status'', ''labels''] \<and>
             keys (own out ''status'') = [''state'', ''silenced'', ''inhibited''] \<and>
             own out ''endsAt'' = Undefined \<and>
             own out ''generatorURL'' = Undefined \<and>
             own out ''annotations'' = Undefined \<and>
             own out ''fingerprint'' = own alert ''fingerprint'' \<and>
             own out ''alertname'' = own (own alert ''labels'') ''alertname'' \<and>
             own out ''startsAt'' = own alert ''startsAt'' \<and>
             own (own out ''status'') ''state'' = own (own alert ''status'') ''state'' \<and>
             own out ''labels'' = own alert ''labels'') alerts outs"
  (is "\<exists>outs. _ \<and> _ \<and> list_all2 ?P alerts outs")
proof -
  from get_alerts_projects [OF assms, of eng] obtain outs where
    m: "map_throwing (formatAlert eng) alerts = Inr outs" and
    e: "snd (get_alerts eng env net args) = success (JSON_stringify_2 eng (Arr outs))" and
    p: "list_all2 (\<lambda>alert out. is_Alert alert \<and> formatAlert eng alert = Inr out) alerts outs"
    by blast
  from p have "list_all2 ?P alerts outs"
  proof (rule list_all2_mono)
    fix alert out
    assume "is_Alert alert \<and> formatAlert eng alert = Inr out"
    then show "?P alert out"
      using formatAlert_keys [of alert eng] by simp
  qed
  with m e show ?thesis by blast
qed

theorem get_alerts_keys_witness:
  "snd (fetchFromAlertmanager None example_upstream
          (with_query ''alerts'' (toString (get_alerts_params example_no_flags))) no_options) =
     Inr (Arr [example_alert]) \<and>
   list_all is_Alert [example_alert] \<and>
   (case map_throwing (formatAlert example_engine) [example_alert] of
      Inr [out] \<Rightarrow>
        snd (get_alerts example_engine None example_upstream example_no_flags) =
          success (JSON_stringify_2 example_engine (Arr [out])) \<and>
        keys out = [''fingerprint'', ''alertname'', ''severity'', ''summary'',
                    ''description'', ''startsAt'', ''status'', ''labels''] \<and>
        own out ''endsAt'' = Undefined \<and>
        own out ''generatorURL'' = Undefined \<and>
        own out ''annotations'' = Undefined
    | _ \<Rightarrow> False)"
proof -
  from get_alerts_keys [OF example_fetch example_Alerts, of example_engine]
  obtain outs where
    m: "map_throwing (formatAlert example_engine) [example_alert] = Inr outs" and
    e: "snd (get_alerts example_engine None example_upstream example_no_flags) =
          success (JSON_stringify_2 example_engine (Arr outs))"
    by blast
  from m have o: "outs =
       [Obj [(''fingerprint'', Str ''a1b2''),
             (''alertname'', Str ''HighCPULoad''),
             (''severity'', Str ''unknown''),
             (''summary'', Str ''load is high''),
             (''description'', Str ''No description provided''),
             (''startsAt'', Str ''2024-01-01T00:00:00Z''),
             (''status'', Obj [(''state'', Str ''suppressed''),
                               (''silenced'', Bool True),
                               (''inhibited'', Bool False)]),
             (''labels'', Obj [(''alertname'', Str ''HighCPULoad''),
                               (''severity'', Str [])])]]"
    by (simp only: example_projected sum.inject)
  from e show ?thesis
    unfolding example_projected
    by (simp add: o example_fetch is_Alert_example field_def)
qed

text \<open>
  Claim C10. The defaults of the projection of \<open>get-alerts\<close> are triggered by
  emptiness too: in the payload the handler returns, the element for an \<open>Alert\<close> whose
  \<open>severity\<close> label is the empty string has \<open>severity\<close> \<open>"unknown"\<close>, and an empty
  \<open>summary\<close> or \<open>description\<close> annotation is replaced by its placeholder.
\<close>

theorem get_alerts_empty_strings:
  assumes "snd (fetchFromAlertmanager env net
                  (with_query ''alerts'' (toString (get_alerts_params args))) no_options) =
             Inr (Arr alerts)"
    and "list_all is_Alert alerts"
  shows "\<exists>outs.
           map_throwing (formatAlert eng) alerts = Inr outs \<and>
           snd (get_alerts eng env net args) = success (JSON_stringify_2 eng (Arr outs)) \<and>
           list_all2 (\<lambda>alert out.
             (own (own alert ''labels'') ''severity'' = Str [] \<longrightarrow>
                own out ''severity'' = Str ''unknown'') \<and>
             (own (own alert ''annotations'') ''summary'' = Str [] \<longrightarrow>
                own out ''summary'' = Str ''No summary provided'') \<and>
             (own (own alert ''annotations'') ''description'' = Str [] \<longrightarrow>
                own out ''description'' = Str ''No description provided'')) alerts outs"
  (is "\<exists>outs. _ \<and> _ \<and> list_all2 ?P alerts outs")
proof -
  from get_alerts_projects [OF assms, of eng] obtain outs where
    m: "map_throwing (formatAlert eng) alerts = Inr outs" and
    e: "snd (get_alerts eng env net args) = success (JSON_stringify_2 eng (Arr outs))" and
    p: "list_all2 (\<lambda>alert out. is_Alert alert \<and> formatAlert eng alert = Inr out) alerts outs"
    by blast
  from p have "list_all2 ?P alerts outs"
  proof (rule list_all2_mono)
    fix alert out
    assume "is_Alert alert \<and> formatAlert eng alert = Inr out"
    then show "?P alert out"
      using formatAlert_empty_strings [of alert eng] by simp
  qed
  with m e show ?thesis by blast
qed

theorem get_alerts_empty_strings_witness:
  "snd (fetchFromAlertmanager None example_upstream
          (with_query ''alerts'' (toString (get_alerts_params example_no_flags))) no_options) =
     Inr (Arr [example_alert]) \<and>
   list_all is_Alert [example_alert] \<and>
   own (own example_alert ''labels'') ''severity'' = Str [] \<and>
   (case map_throwing (formatAlert example_engine) [example_alert] of
      Inr [out] \<Rightarrow>
        snd (get_alerts example_engine None example_upstream example_no_flags) =
          success (JSON_stringify_2 example_engine (Arr [out])) \<and>
        own out ''severity'' = Str ''unknown''
    | _ \<Rightarrow> False)"
proof -
  have s: "own (own example_alert ''labels'') ''severity'' = Str []"
    by (simp add: example_alert_def field_def)
  from get_alerts_empty_strings [OF example_fetch example_Alerts, of example_engine]
  obtain outs where
    m: "map_throwing (formatAlert example_engine) [example_alert] = Inr outs" and
    e: "snd (get_alerts example_engine None example_upstream example_no_flags) =
          success (JSON_stringify_2 example_engine (Arr outs))"
    by blast
  from m have o: "outs =
       [Obj [(''fingerprint'', Str ''a1b2''),
             (''alertname'', Str ''HighCPULoad''),
             (''severity'', Str ''unknown''),
             (''summary'', Str ''load is high''),
             (''description'', Str ''No description provided''),
             (''startsAt'', Str ''2024-01-01T00:00:00Z''),
             (''status'', Obj [(''state'', Str ''suppressed''),
                               (''silenced'', Bool True),
                               (''inhibited'', Bool False)]),
             (''labels'', Obj [(''alertname'', Str ''HighCPULoad''),
                               (''severity'', Str [])])]]"
    by (simp only: example_projected sum.inject)
  from e show ?thesis
    unfolding example_projected
    by (simp add: o example_fetch is_Alert_example s field_def)
qed

section \<open>get-alert-details\<close>

text \<open>On a list of \<open>Alert\<close>s the scan is \<open>find\<close> on the fingerprints.\<close>

lemma find_throwing_Alerts:
  assumes "list_all is_Alert alerts"
  shows "find_throwing (has_fingerprint fp) alerts =
           Inr (case find (\<lambda>a. own a ''fingerprint'' = Str fp) alerts of
                  None \<Rightarrow> Undefined | Some a \<Rightarrow> a)"
  using assms
proof (induction alerts)
  case Nil
  then show ?case by simp
next
  case (Cons a alerts)
  from Cons.prems obtain kvs where a: "a = Obj kvs" using is_Alert_cases by auto
  from Cons show ?case by (simp add: a has_fingerprint_def)
qed

lemma alertDetails_Alert:
  assumes "is_Alert alert"
  shows "alertDetails alert = Inr (Obj
         [(''fingerprint'', own alert ''fingerprint''),
          (''alertname'', own (own alert ''labels'') ''alertname''),
          (''labels'', own alert ''labels''),
          (''annotations'', own alert ''annotations''),
          (''startsAt'', own alert ''startsAt''),
          (''endsAt'', own alert ''endsAt''),
          (''generatorURL'', own alert ''generatorURL''),
          (''status'', own alert ''status'')])"
proof -
  from assms obtain kvs where a: "alert = Obj kvs" using is_Alert_cases by blast
  from assms a obtain ls where ls: "field kvs ''labels'' = Obj ls"
    using is_string_map_cases by fastforce
  show ?thesis by (simp add: alertDetails_def a ls)
qed

text \<open>
  Claim C4. Let the upstream call return a list of \<open>Alert\<close>s. If some alert of the
  list has the given fingerprint, \<open>get-alert-details\<close> returns the success envelope
  whose payload is the first such alert, unprojected: its \<open>fingerprint\<close> (equal to the
  input), \<open>alertname\<close>, \<open>labels\<close>, \<open>annotations\<close>, \<open>startsAt\<close>, \<open>endsAt\<close>,
  \<open>generatorURL\<close> and \<open>status\<close>. If none has, it returns the failure envelope
  (\<open>isError\<close> true) whose message holds the fingerprint.
\<close>

theorem get_alert_details_found_or_not:
  assumes "snd (fetchFromAlertmanager env net ''alerts'' no_options) = Inr (Arr alerts)"
    and "list_all is_Alert alerts"
  shows "case find (\<lambda>a. own a ''fingerprint'' = Str fingerprint) alerts of
           None \<Rightarrow>
             snd (get_alert_details eng env net fingerprint) =
               failure (''Alert with fingerprint '' @ fingerprint @ '' not found'')
         | Some alert \<Rightarrow>
             snd (get_alert_details eng env net fingerprint) =
               success (JSON_stringify_2 eng (Obj
                 [(''fingerprint'', Str fingerprint),
                  (''alertname'', own (own alert ''labels'') ''alertname''),
                  (''labels'', own alert ''labels''),
                  (''annotations'', own alert ''annotations''),
                  (''startsAt'', own alert ''startsAt''),
                  (''endsAt'', own alert ''endsAt''),
                  (''generatorURL'', own alert ''generatorURL''),
                  (''status'', own alert ''status'')]))"
proof -
  from assms(1) obtain effects where
    f: "fetchFromAlertmanager env net ''alerts'' no_options = (effects, Inr (Arr alerts))"
    by (cases "fetchFromAlertmanager env net ''alerts'' no_options") auto
  show ?thesis
  proof (cases "find (\<lambda>a. own a ''fingerprint'' = Str fingerprint) alerts")
    case None
    with assms(2) show ?thesis
      by (simp add: get_alert_details_def f find_throwing_Alerts try_catch_def)
  next
    case (Some alert)
    then have "alert \<in> set alerts" and fp: "own alert ''fingerprint'' = Str fingerprint"
      by (auto simp: find_Some_iff)
    with assms(2) have al: "is_Alert alert" by (simp add: list_all_iff)
    from assms(2) Some show ?thesis
      by (simp add: get_alert_details_def f find_throwing_Alerts try_catch_def
                    is_Alert_truthy [OF al] alertDetails_Alert [OF al] fp)
  qed
qed

theorem get_alert_details_found_or_not_witness:
  "snd (get_alert_details example_engine None example_upstream ''a1b2'') =
     success (JSON_stringify_2 example_engine (Obj
       [(''fingerprint'', Str ''a1b2''),
        (''alertname'', Str ''HighCPULoad''),
        (''labels'', Obj [(''alertname'', Str ''HighCPULoad''), (''severity'', Str [])]),
        (''annotations'', Obj [(''summary'', Str ''load is high'')]),
        (''startsAt'', Str ''2024-01-01T00:00:00Z''),
        (''endsAt'', Str ''0001-01-01T00:00:00Z''),
        (''generatorURL'', Str ''http://prometheus/graph''),
        (''status'', Obj [(''state'', Str ''suppressed''),
                          (''silencedBy'', Arr [Str ''s-1'']),
                          (''inhibitedBy'', Arr [])])])) \<and>
   snd (get_alert_details example_engine None example_upstream ''ffff'') =
     failure ''Alert with fingerprint ffff not found''"
proof -
  have f: "snd (fetchFromAlertmanager None example_upstream ''alerts'' no_options) =
             Inr (Arr [example_alert])"
    by (simp add: fetchFromAlertmanager_def example_upstream_def ok_def)
  have a: "list_all is_Alert [example_alert]"
    by (simp add: is_Alert_example)
  from get_alert_details_found_or_not
         [OF f a, where fingerprint = "''a1b2''" and eng = example_engine]
       get_alert_details_found_or_not
         [OF f a, where fingerprint = "''ffff''" and eng = example_engine]
  show ?thesis
    by (simp add: example_alert_def field_def)
qed

section \<open>The upstream client\<close>

text \<open>One call sends one request, and its result is decided by the answer to it.\<close>

lemma fetch_requests:
  "requests (fst (fetchFromAlertmanager env net path options)) =
     [Fetch \<lparr>req_url = baseUrl env @ ''/api/v2/'' @ path, req_init = options\<rparr>]"
  by (simp add: fetchFromAlertmanager_def Let_def requests_def
           split: fetch_result.splits sum.splits)

lemma fetch_fst_snd:
  "fetchFromAlertmanager env net path options = (effects, fetched) \<Longrightarrow>
     snd (fetchFromAlertmanager env net path options) = fetched"
  by simp

lemma fetch_result_cases:
  "snd (fetchFromAlertmanager env net path options) =
     (case net \<lparr>req_url = baseUrl env @ ''/api/v2/'' @ path, req_init = options\<rparr> of
        Rejected error \<Rightarrow> Inl error
      | Resolved response \<Rightarrow>
          if ok response then json response
          else Inl (ErrorInstance (''Alertmanager API error: '' @
                 show_nat (status response) @ '' '' @ statusText response)))"
  by (simp add: fetchFromAlertmanager_def Let_def split: fetch_result.splits sum.splits)

text \<open>
  Claim C8. \<open>fetchFromAlertmanager\<close> returns a parsed JSON value iff the response
  has a 2xx status and a body that parses; it sends exactly one request; for a status
  that is not 2xx it throws an error whose message holds the status code and the
  status text; a 2xx response whose body does not parse throws too, and so does a
  rejected \<open>fetch\<close>. A 404 to the \<open>DELETE\<close> of \<open>delete-silence\<close> comes out as the
  failure envelope with \<open>404\<close> in its message.
\<close>

theorem fetchFromAlertmanager_outcome:
  "(snd (fetchFromAlertmanager env net path options) = Inr parsed \<longleftrightarrow>
      (\<exists>response.
         net \<lparr>req_url = baseUrl env @ ''/api/v2/'' @ path, req_init = options\<rparr> =
           Resolved response \<and>
         200 \<le> status response \<and> status response \<le> 299 \<and>
         json response = Inr parsed)) \<and>
   requests (fst (fetchFromAlertmanager env net path options)) =
     [Fetch \<lparr>req_url = baseUrl env @ ''/api/v2/'' @ path, req_init = options\<rparr>] \<and>
   (\<forall>response.
      net \<lparr>req_url = baseUrl env @ ''/api/v2/'' @ path, req_init = options\<rparr> =
        Resolved response \<and>
      \<not> (200 \<le> status response \<and> status response \<le> 299) \<longrightarrow>
      snd (fetchFromAlertmanager env net path options) =
        Inl (ErrorInstance (''Alertmanager API error: '' @ show_nat (status response) @
                            '' '' @ statusText response))) \<and>
   (\<forall>response error.
      net \<lparr>req_url = baseUrl env @ ''/api/v2/'' @ path, req_init = options\<rparr> =
        Resolved response \<and>
      200 \<le> status response \<and> status response \<le> 299 \<and>
      json response = Inl error \<longrightarrow>
      snd (fetchFromAlertmanager env net path options) = Inl error) \<and>
   (\<forall>error.
      net \<lparr>req_url = baseUrl env @ ''/api/v2/'' @ path, req_init = options\<rparr> =
        Rejected error \<longrightarrow>
      snd (fetchFromAlertmanager env net path options) = Inl error) \<and>
   (\<forall>text body.
      net \<lparr>req_url = baseUrl env @ ''/api/v2/silence/'' @ silenceId,
           req_init = \<lparr>http_method = Some ''DELETE'', http_headers = [],
                        http_body = None\<rparr>\<rparr> =
        Resolved \<lparr>status = 404, statusText = text, json = body\<rparr> \<longrightarrow>
      snd (delete_silence env net silenceId) =
        failure (''Error deleting silence: Alertmanager API error: 404 '' @ text))"
proof -
  have s404: "show_nat 404 = ''404''"
    by code_simp
  show ?thesis
    by (auto simp: fetch_requests fetch_result_cases ok_def delete_silence_def
                  try_catch_def s404
             split: fetch_result.splits prod.splits dest!: fetch_fst_snd)
qed

theorem fetchFromAlertmanager_outcome_witness:
  "snd (fetchFromAlertmanager None example_upstream ''alerts'' no_options) =
     Inr (Arr [example_alert]) \<and>
   snd (fetchFromAlertmanager None example_not_found ''alerts'' no_options) =
     (Inl (ErrorInstance ''Alertmanager API error: 404 Not Found'') :: thrown + nat jsval) \<and>
   snd (fetchFromAlertmanager None example_empty_body ''alerts'' no_options) =
     (Inl (ErrorInstance ''Unexpected end of JSON input'') :: thrown + nat jsval) \<and>
   snd (fetchFromAlertmanager None example_unreachable ''alerts'' no_options) =
     (Inl (ErrorInstance ''fetch failed'') :: thrown + nat jsval) \<and>
   snd (delete_silence None example_not_found ''abc'') =
     \<lparr>content = [\<lparr>block_type = ''text'',
          block_text = ''Error deleting silence: Alertmanager API error: 404 Not Found''\<rparr>],
      isError = Some True\<rparr>"
proof -
  note h = fetchFromAlertmanager_outcome
    [where env = None and path = "''alerts''" and options = no_options
       and silenceId = "''abc''"]
  have s404: "show_nat 404 = ''404''"
    by code_simp
  from h [where net = example_upstream and parsed = "Arr [example_alert]"]
       h [where net = example_not_found]
       h [where net = example_empty_body]
       h [where net = example_unreachable]
  show ?thesis
    by (simp add: example_upstream_def example_not_found_def example_empty_body_def
                  example_unreachable_def failure_def s404)
qed

section \<open>The boundary of the handlers\<close>

lemma is_envelope_success: "is_envelope (success t)"
  by (simp add: is_envelope_def success_def)

lemma is_envelope_failure: "is_envelope (failure t)"
  by (simp add: is_envelope_def failure_def)

lemma try_catch_envelope:
  assumes "\<And>e. block = Inr e \<Longrightarrow> is_envelope e"
  shows "is_envelope (try_catch prefix block)"
  using assms by (cases block) (simp_all add: try_catch_def is_envelope_failure)

lemma and_then_Inr: "and_then m f = Inr y \<longleftrightarrow> (\<exists>x. m = Inr x \<and> f x = Inr y)"
  by (cases m) simp_all

lemma get_alerts_envelope: "is_envelope (snd (get_alerts eng env net args))"
  by (auto simp: get_alerts_def Let_def and_then_Inr is_envelope_success
           split: prod.splits intro!: try_catch_envelope)

lemma get_alert_details_envelope: "is_envelope (snd (get_alert_details eng env net fingerprint))"
  by (auto simp: get_alert_details_def and_then_Inr is_envelope_success is_envelope_failure
           split: prod.splits if_splits intro!: try_catch_envelope)

lemma create_silence_envelope: "is_envelope (snd (create_silence eng now env net args))"
  by (auto simp: create_silence_def and_then_Inr is_envelope_success
           split: prod.splits intro!: try_catch_envelope)

lemma get_silences_envelope: "is_envelope (snd (get_silences eng env net filter_arg))"
  by (auto simp: get_silences_def Let_def and_then_Inr is_envelope_success
           split: prod.splits intro!: try_catch_envelope)

lemma delete_silence_envelope: "is_envelope (snd (delete_silence env net silenceId))"
  by (auto simp: delete_silence_def and_then_Inr is_envelope_success
           split: prod.splits intro!: try_catch_envelope)

lemma get_alert_groups_envelope: "is_envelope (snd (get_alert_groups eng env net args))"
  by (auto simp: get_alert_groups_def Let_def and_then_Inr is_envelope_success
           split: prod.splits intro!: try_catch_envelope)


text \<open>
  Claim C1. Each of the six handlers is a total function to an envelope: whatever the
  arguments, the engine and the upstream do (a rejected call, a status that is not 2xx,
  a body that does not parse, a body of any shape, on which a read may throw), it
  returns one envelope with one \<open>text\<close> block, \<open>isError\<close> absent or \<open>true\<close>. An
  exception of the upstream call becomes the failure envelope with the handler's prefix.
\<close>

theorem handlers_return_one_envelope:
  "is_envelope (snd (get_alerts eng env net alerts_args)) \<and>
   is_envelope (snd (get_alert_details eng env net fingerprint)) \<and>
   is_envelope (snd (create_silence eng now env net silence_args)) \<and>
   is_envelope (snd (get_silences eng env net filter_arg)) \<and>
   is_envelope (snd (delete_silence env net silenceId)) \<and>
   is_envelope (snd (get_alert_groups eng env net groups_args)) \<and>
   (net = (\<lambda>request. Rejected error) \<longrightarrow>
      snd (get_alerts eng env net alerts_args) =
        failure (''Error fetching alerts: '' @ errorMessage error) \<and>
      snd (get_alert_details eng env net fingerprint) =
        failure (''Error fetching alert details: '' @ errorMessage error) \<and>
      snd (create_silence eng now env net silence_args) =
        failure (''Error creating silence: '' @ errorMessage error) \<and>
      snd (get_silences eng env net filter_arg) =
        failure (''Error fetching silences: '' @ errorMessage error) \<and>
      snd (delete_silence env net silenceId) =
        failure (''Error deleting silence: '' @ errorMessage error) \<and>
      snd (get_alert_groups eng env net groups_args) =
        failure (''Error fetching alert groups: '' @ errorMessage error))"
  (is "?a1 \<and> ?a2 \<and> ?a3 \<and> ?a4 \<and> ?a5 \<and> ?a6 \<and> (?rejected \<longrightarrow> ?caught)")
proof -
  have shape: "?a1 \<and> ?a2 \<and> ?a3 \<and> ?a4 \<and> ?a5 \<and> ?a6"
    by (simp add: get_alerts_envelope get_alert_details_envelope create_silence_envelope
                  get_silences_envelope delete_silence_envelope get_alert_groups_envelope)
  have caught: ?caught if ?rejected
    by (simp add: that get_alerts_def get_alert_details_def create_silence_def
                  get_silences_def delete_silence_def get_alert_groups_def Let_def
                  fetchFromAlertmanager_def try_catch_def)
  from shape caught show ?thesis by blast
qed

theorem handlers_return_one_envelope_witness:
  "snd (get_alerts example_engine None (\<lambda>request. Rejected (ErrorInstance ''fetch failed''))
          \<lparr>ga_filter = None, ga_silenced = None, ga_inhibited = None, ga_active = None\<rparr>) =
     \<lparr>content = [\<lparr>block_type = ''text'',
                   block_text = ''Error fetching alerts: fetch failed''\<rparr>],
      isError = Some True\<rparr> \<and>
   is_envelope (snd (get_alerts example_engine None example_null_body
          \<lparr>ga_filter = None, ga_silenced = None, ga_inhibited = None, ga_active = None\<rparr>)) \<and>
   isError (snd (get_alerts example_engine None example_null_body
          \<lparr>ga_filter = None, ga_silenced = None, ga_inhibited = None, ga_active = None\<rparr>)) =
     Some True \<and>
   is_envelope (snd (get_alert_groups example_engine None example_null_body
          \<lparr>gg_active = None, gg_silenced = None, gg_inhibited = None\<rparr>)) \<and>
   isError (snd (get_alert_groups example_engine None example_null_body
          \<lparr>gg_active = None, gg_silenced = None, gg_inhibited = None\<rparr>)) = None"
proof -
  note h = handlers_return_one_envelope
    [where eng = example_engine and env = None
       and alerts_args = "\<lparr>ga_filter = None, ga_silenced = None, ga_inhibited = None,
                            ga_active = None\<rparr>"
       and groups_args = "\<lparr>gg_active = None, gg_silenced = None, gg_inhibited = None\<rparr>"]
  have n: "isError (snd (get_alerts example_engine None example_null_body
          \<lparr>ga_filter = None, ga_silenced = None, ga_inhibited = None, ga_active = None\<rparr>)) =
     Some True"
    by (simp add: get_alerts_def Let_def fetchFromAlertmanager_def try_catch_def
                  example_null_body_def ok_def failure_def get_alerts_params_def
                  with_query_def)
  have g: "isError (snd (get_alert_groups example_engine None example_null_body
          \<lparr>gg_active = None, gg_silenced = None, gg_inhibited = None\<rparr>)) = None"
    by (simp add: get_alert_groups_def Let_def fetchFromAlertmanager_def try_catch_def
                  example_null_body_def ok_def success_def get_alert_groups_params_def
                  with_query_def)
  from h [where net = "\<lambda>request. Rejected (ErrorInstance ''fetch failed'')"
            and error = "ErrorInstance ''fetch failed''"]
       h [where net = example_null_body]
  show ?thesis
    by (simp add: n g failure_def)
qed

section \<open>Query strings of get-alerts and get-alert-groups\<close>

lemma handler_requests:
  "fst (get_alerts eng env net alerts_args) =
     fst (fetchFromAlertmanager env net
            (with_query ''alerts'' (toString (get_alerts_params alerts_args))) no_options)"
  "fst (get_alert_groups eng env net groups_args) =
     fst (fetchFromAlertmanager env net
            (with_query ''alerts/groups'' (toString (get_alert_groups_params groups_args)))
            no_options)"
  "fst (create_silence eng now env net silence_args) =
     fst (fetchFromAlertmanager env net ''silences''
            \<lparr>http_method = Some ''POST'',
             http_headers = [(''Content-Type'', ''application/json'')],
             http_body = Some (JSON_stringify eng (silenceData now silence_args))\<rparr>)"
  "fst (delete_silence env net silenceId) =
     fst (fetchFromAlertmanager env net (''silence/'' @ silenceId)
            \<lparr>http_method = Some ''DELETE'', http_headers = [], http_body = None\<rparr>)"
  by (simp_all add: get_alerts_def get_alert_groups_def create_silence_def delete_silence_def
                    Let_def split: prod.splits)

lemma get_alerts_params_cases:
  "get_alerts_params args =
     (case ga_filter args of None \<Rightarrow> [] | Some f \<Rightarrow> if f \<noteq> [] then [(''filter'', f)] else []) @
     (if ga_silenced args = Some True then [(''silenced'', ''true'')] else []) @
     (if ga_inhibited args = Some True then [(''inhibited'', ''true'')] else []) @
     (if ga_active args = Some False then [(''active'', ''false'')] else [])"
  by (cases "ga_filter args"; cases "ga_silenced args"; cases "ga_inhibited args";
      cases "ga_active args")
     (simp_all add: get_alerts_params_def append_param_def)

lemma get_alert_groups_params_cases:
  "get_alert_groups_params args =
     (if gg_active args = Some False then [(''active'', ''false'')] else []) @
     (if gg_silenced args = Some True then [(''silenced'', ''true'')] else []) @
     (if gg_inhibited args = Some True then [(''inhibited'', ''true'')] else [])"
  by (cases "gg_active args"; cases "gg_silenced args"; cases "gg_inhibited args")
     (simp_all add: get_alert_groups_params_def append_param_def)

text \<open>
  Claim C5. The query of \<open>get-alerts\<close> has a \<open>filter\<close> parameter only if the filter
  is given (and then it is that filter, not empty), \<open>silenced=true\<close> and
  \<open>inhibited=true\<close> only when those flags are \<open>true\<close>, \<open>active=false\<close> only when
  \<open>active\<close> is \<open>false\<close>, and nothing else; it is what the one request is sent with.
  \<open>get-alerts({silenced: true})\<close> asks for \<open>alerts?silenced=true\<close>. The same holds
  for the three flags of \<open>get-alert-groups\<close>.
\<close>

theorem query_parameters:
  "((''filter'', v) \<in> set (get_alerts_params alerts_args) \<longleftrightarrow>
      ga_filter alerts_args = Some v \<and> v \<noteq> []) \<and>
   ((''silenced'', v) \<in> set (get_alerts_params alerts_args) \<longleftrightarrow>
      ga_silenced alerts_args = Some True \<and> v = ''true'') \<and>
   ((''inhibited'', v) \<in> set (get_alerts_params alerts_args) \<longleftrightarrow>
      ga_inhibited alerts_args = Some True \<and> v = ''true'') \<and>
   ((''active'', v) \<in> set (get_alerts_params alerts_args) \<longleftrightarrow>
      ga_active alerts_args = Some False \<and> v = ''false'') \<and>
   fst ` set (get_alerts_params alerts_args) \<subseteq>
     {''filter'', ''silenced'', ''inhibited'', ''active''} \<and>
   requests (fst (get_alerts eng env net alerts_args)) =
     [Fetch \<lparr>req_url = baseUrl env @ ''/api/v2/'' @
                with_query ''alerts'' (toString (get_alerts_params alerts_args)),
              req_init = no_options\<rparr>] \<and>
   get_alerts_params \<lparr>ga_filter = None, ga_silenced = Some True, ga_inhibited = None,
                      ga_active = None\<rparr> = [(''silenced'', ''true'')] \<and>
   with_query ''alerts'' (toString (get_alerts_params
       \<lparr>ga_filter = None, ga_silenced = Some True, ga_inhibited = None, ga_active = None\<rparr>)) =
     ''alerts?silenced=true'' \<and>
   ((''silenced'', v) \<in> set (get_alert_groups_params groups_args) \<longleftrightarrow>
      gg_silenced groups_args = Some True \<and> v = ''true'') \<and>
   ((''inhibited'', v) \<in> set (get_alert_groups_params groups_args) \<longleftrightarrow>
      gg_inhibited groups_args = Some True \<and> v = ''true'') \<and>
   ((''active'', v) \<in> set (get_alert_groups_params groups_args) \<longleftrightarrow>
      gg_active groups_args = Some False \<and> v = ''false'') \<and>
   fst ` set (get_alert_groups_params groups_args) \<subseteq>
     {''silenced'', ''inhibited'', ''active''} \<and>
   requests (fst (get_alert_groups eng env net groups_args)) =
     [Fetch \<lparr>req_url = baseUrl env @ ''/api/v2/'' @
                with_query ''alerts/groups'' (toString (get_alert_groups_params groups_args)),
              req_init = no_options\<rparr>]"
  (is "?f \<and> ?s \<and> ?i \<and> ?a \<and> ?k \<and> ?r \<and> ?e1 \<and> ?e2 \<and> ?gs \<and> ?gi \<and> ?ga \<and> ?gk \<and> ?gr")
proof -
  have ?f by (auto simp: get_alerts_params_cases split: option.splits)
  moreover have ?s by (auto simp: get_alerts_params_cases split: option.splits)
  moreover have ?i by (auto simp: get_alerts_params_cases split: option.splits)
  moreover have ?a by (auto simp: get_alerts_params_cases split: option.splits)
  moreover have ?k by (auto simp: get_alerts_params_cases split: option.splits)
  moreover have ?r by (simp add: handler_requests fetch_requests)
  moreover have ?e1 by (simp add: get_alerts_params_cases)
  moreover have ?e2
    by (simp add: get_alerts_params_cases with_query_def urlencode_def urlencode_byte_def)
  moreover have ?gs by (auto simp: get_alert_groups_params_cases)
  moreover have ?gi by (auto simp: get_alert_groups_params_cases)
  moreover have ?ga by (auto simp: get_alert_groups_params_cases)
  moreover have ?gk by (auto simp: get_alert_groups_params_cases)
  moreover have ?gr by (simp add: handler_requests fetch_requests)
  ultimately show ?thesis by blast
qed

theorem query_parameters_witness:
  "get_alerts_params \<lparr>ga_filter = Some ''severity=critical'', ga_silenced = None,
                      ga_inhibited = Some False, ga_active = Some False\<rparr> =
     [(''filter'', ''severity=critical''), (''active'', ''false'')] \<and>
   requests (fst (get_alerts example_engine None example_upstream
       \<lparr>ga_filter = Some ''severity=critical'', ga_silenced = None,
         ga_inhibited = Some False, ga_active = Some False\<rparr>)) =
     [Fetch \<lparr>req_url =
               ''http://localhost:9093/api/v2/alerts?filter=severity%3Dcritical&active=false'',
             req_init = no_options\<rparr>]"
proof -
  have p: "get_alerts_params \<lparr>ga_filter = Some ''severity=critical'', ga_silenced = None,
                      ga_inhibited = Some False, ga_active = Some False\<rparr> =
     [(''filter'', ''severity=critical''), (''active'', ''false'')]"
    by (simp add: get_alerts_params_def append_param_def)
  have h: "hex_digit 3 = CHR ''3''" "hex_digit 13 = CHR ''D''"
    by code_simp+
  from query_parameters
    [where eng = example_engine and env = None and net = example_upstream
       and alerts_args = "\<lparr>ga_filter = Some ''severity=critical'', ga_silenced = None,
                             ga_inhibited = Some False, ga_active = Some False\<rparr>"]
  show ?thesis
    by (simp add: p h with_query_def urlencode_def urlencode_byte_def baseUrl_def
                  DEFAULT_ALERTMANAGER_URL_def)
qed

section \<open>create-silence\<close>

text \<open>
  Claim C6, as stated, at \<open>startsAt: ""\<close>: the argument is supplied, and the body's
  \<open>startsAt\<close> is the current timestamp, not the argument.
\<close>

theorem create_silence_empty_startsAt:
  "cs_startsAt (example_silence_args\<lparr>cs_startsAt := Some []\<rparr>) = Some [] \<and>
   own (silenceData ''2024-05-01T12:00:00.000Z''
          (example_silence_args\<lparr>cs_startsAt := Some []\<rparr>) :: nat jsval) ''startsAt'' =
     Str ''2024-05-01T12:00:00.000Z'' \<and>
   own (silenceData ''2024-05-01T12:00:00.000Z''
          (example_silence_args\<lparr>cs_startsAt := Some []\<rparr>) :: nat jsval) ''startsAt'' \<noteq>
     Str []"
  by (simp add: silenceData_def example_silence_args_def field_def)

text \<open>
  Claim C6, amended. \<open>create-silence\<close> sends one \<open>POST\<close> to \<open>silences\<close> whose body
  is \<open>JSON.stringify(silenceData)\<close>. In \<open>silenceData\<close> the matchers are the given
  ones, in order, each with its \<open>name\<close> and \<open>value\<close> and with \<open>isRegex\<close> the given
  boolean, or \<open>false\<close> when it is absent; \<open>startsAt\<close> is the current timestamp (read
  once per call) when the argument is omitted or is the empty string, and the argument,
  unmodified, when it is supplied and not empty; \<open>endsAt\<close>, \<open>createdBy\<close> and
  \<open>comment\<close> are the arguments.
\<close>

theorem create_silence_body:
  fixes eng :: "'n js_engine"
  shows
  "requests (fst (create_silence eng now env net args)) =
     [Fetch \<lparr>req_url = baseUrl env @ ''/api/v2/silences'',
             req_init = \<lparr>http_method = Some ''POST'',
                          http_headers = [(''Content-Type'', ''application/json'')],
                          http_body = Some (JSON_stringify eng (silenceData now args))\<rparr>\<rparr>] \<and>
   keys (silenceData now args :: 'n jsval) =
     [''matchers'', ''startsAt'', ''endsAt'', ''createdBy'', ''comment''] \<and>
   own (silenceData now args :: 'n jsval) ''matchers'' =
     Arr (map normalizeMatcher (cs_matchers args)) \<and>
   (\<forall>m. own (normalizeMatcher m :: 'n jsval) ''name'' = Str (m_name m) \<and>
        own (normalizeMatcher m :: 'n jsval) ''value'' = Str (m_value m) \<and>
        (m_isRegex m = None \<longrightarrow>
           own (normalizeMatcher m :: 'n jsval) ''isRegex'' = Bool False) \<and>
        (\<forall>b. m_isRegex m = Some b \<longrightarrow>
           own (normalizeMatcher m :: 'n jsval) ''isRegex'' = Bool b)) \<and>
   (cs_startsAt args = None \<longrightarrow>
      own (silenceData now args :: 'n jsval) ''startsAt'' = Str now) \<and>
   (cs_startsAt args = Some [] \<longrightarrow>
      own (silenceData now args :: 'n jsval) ''startsAt'' = Str now) \<and>
   (\<forall>s. cs_startsAt args = Some s \<and> s \<noteq> [] \<longrightarrow>
      own (silenceData now args :: 'n jsval) ''startsAt'' = Str s) \<and>
   own (silenceData now args :: 'n jsval) ''endsAt'' = Str (cs_endsAt args) \<and>
   own (silenceData now args :: 'n jsval) ''createdBy'' = Str (cs_createdBy args) \<and>
   own (silenceData now args :: 'n jsval) ''comment'' = Str (cs_comment args)"
  by (auto simp: handler_requests fetch_requests silenceData_def normalizeMatcher_def
                 field_def)

theorem create_silence_body_witness:
  "requests (fst (create_silence example_engine ''2024-05-01T12:00:00.000Z'' None
                    example_upstream example_silence_args)) =
     [Fetch \<lparr>req_url = ''http://localhost:9093/api/v2/silences'',
             req_init = \<lparr>http_method = Some ''POST'',
                          http_headers = [(''Content-Type'', ''application/json'')],
                          http_body = Some (JSON_stringify example_engine
                            (Obj [(''matchers'', Arr [Obj [(''name'', Str ''alertname''),
                                                           (''value'', Str ''X''),
                                                           (''isRegex'', Bool False)]]),
                                  (''startsAt'', Str ''2024-05-01T12:00:00.000Z''),
                                  (''endsAt'', Str ''2030-01-01T00:00:00Z''),
                                  (''createdBy'', Str ''u''),
                                  (''comment'', Str ''c'')]))\<rparr>\<rparr>] \<and>
   own (silenceData ''2024-05-01T12:00:00.000Z''
          (example_silence_args\<lparr>cs_startsAt := Some ''2024-06-01T00:00:00Z''\<rparr>) :: nat jsval)
       ''startsAt'' = Str ''2024-06-01T00:00:00Z''"
proof -
  from create_silence_body
         [where eng = example_engine and now = "''2024-05-01T12:00:00.000Z''"
            and env = None and net = example_upstream and args = example_silence_args]
       create_silence_body
         [where eng = example_engine and now = "''2024-05-01T12:00:00.000Z''"
            and env = None and net = example_upstream
            and args = "example_silence_args\<lparr>cs_startsAt := Some ''2024-06-01T00:00:00Z''\<rparr>"]
  show ?thesis
    by (simp add: example_silence_args_def silenceData_def normalizeMatcher_def
                  baseUrl_def DEFAULT_ALERTMANAGER_URL_def)
qed

text \<open>
  Claim C7, as stated, at \<open>matchers: []\<close>: the schema accepts the invocation.
\<close>

theorem create_silence_schema_accepts_no_matchers:
  "create_silence_schema
     (Obj [(''matchers'', Arr []),
           (''endsAt'', Str ''2030-01-01T00:00:00Z''),
           (''createdBy'', Str ''u''),
           (''comment'', Str ''c'')] :: nat jsval) =
     Some \<lparr>cs_matchers = [], cs_startsAt = None, cs_endsAt = ''2030-01-01T00:00:00Z'',
           cs_createdBy = ''u'', cs_comment = ''c''\<rparr>"
  by (simp add: field_def)

lemma those_length: "those xs = Some ys \<Longrightarrow> length ys = length xs"
  by (induction xs arbitrary: ys) (auto split: option.splits)

lemma those_map_Some:
  "those (map f xs) = Some ys \<Longrightarrow> map f xs = map Some ys"
  by (induction xs arbitrary: ys) (auto split: option.splits)

lemma z_array_Some:
  "z_array s v = Some ys \<Longrightarrow> \<exists>xs. v = Arr xs \<and> map s xs = map Some ys"
  by (cases v) (auto dest: those_map_Some)

lemma matcher_schema_Some:
  "matcher_schema v = Some m \<Longrightarrow>
     own v ''name'' = Str (m_name m) \<and> own v ''value'' = Str (m_value m) \<and>
     (case m_isRegex m of None \<Rightarrow> own v ''isRegex'' = Undefined
                        | Some b \<Rightarrow> own v ''isRegex'' = Bool b)"
  apply (cases v; simp split: Option.bind_splits)
  subgoal for kvs
    apply (cases "field kvs ''name''"; simp)
    apply (cases "field kvs ''value''"; simp)
    apply (cases "field kvs ''isRegex''"; auto)
    done
  done

text \<open>
  Claim C7, amended. \<open>create-silence\<close> requires \<open>matchers\<close> to be an ordered sequence
  of \<open>{name, value, isRegex?}\<close>, with no minimum length: in every invocation the
  schema accepts, \<open>matchers\<close> is an array, each element of which the matcher schema
  accepts, and the handler receives as many matchers, in that order; an invocation with
  an empty sequence is accepted, and its body has \<open>matchers: []\<close>.
\<close>

theorem create_silence_schema_matchers:
  assumes "create_silence_schema v = Some args"
  shows "array_length (own v ''matchers'') = length (cs_matchers args) \<and>
         (case own v ''matchers'' of
            Arr ms \<Rightarrow> map matcher_schema ms = map Some (cs_matchers args)
          | _ \<Rightarrow> False) \<and>
         create_silence_schema
           (Obj [(''matchers'', Arr []), (''endsAt'', Str endsAt),
                 (''createdBy'', Str createdBy), (''comment'', Str comment)] :: 'n jsval) =
           Some \<lparr>cs_matchers = [], cs_startsAt = None, cs_endsAt = endsAt,
                 cs_createdBy = createdBy, cs_comment = comment\<rparr> \<and>
         own (silenceData now
                \<lparr>cs_matchers = [], cs_startsAt = None, cs_endsAt = endsAt,
                  cs_createdBy = createdBy, cs_comment = comment\<rparr> :: 'n jsval)
             ''matchers'' = Arr []"
proof -
  from assms obtain kvs where v: "v = Obj kvs" by (cases v) auto
  from assms v obtain ms where
    m: "z_array matcher_schema (field kvs ''matchers'') = Some ms" and
    a: "cs_matchers args = ms"
    by (auto split: Option.bind_splits)
  from z_array_Some [OF m] obtain xs where
    xs: "field kvs ''matchers'' = Arr xs" "map matcher_schema xs = map Some ms"
    by blast
  from xs(2) have "length xs = length ms"
    by (metis length_map)
  with xs a v show ?thesis
    by (simp add: field_def silenceData_def)
qed

theorem create_silence_schema_matchers_witness:
  "create_silence_schema example_silence_input = Some example_silence_args \<and>
   array_length (own example_silence_input ''matchers'') = 1 \<and>
   length (cs_matchers example_silence_args) = 1"
proof -
  have h: "create_silence_schema example_silence_input = Some example_silence_args"
    by (simp add: example_silence_input_def example_silence_args_def field_def)
  have a: "array_length (own example_silence_input ''matchers'') = 1"
    by (simp add: example_silence_input_def field_def)
  from create_silence_schema_matchers [OF h, THEN conjunct1] a
  have "length (cs_matchers example_silence_args) = 1"
    by simp
  with h a show ?thesis
    by simp
qed

section \<open>delete-silence\<close>

text \<open>
  What \<open>delete-silence\<close> does do: one \<open>DELETE\<close> to the singular path, and, when
  \<open>fetchFromAlertmanager\<close> returns, the success envelope with the id, whatever value
  was parsed.
\<close>

lemma delete_silence_request:
  "requests (fst (delete_silence env net silenceId)) =
     [Fetch \<lparr>req_url = baseUrl env @ ''/api/v2/silence/'' @ silenceId,
             req_init = \<lparr>http_method = Some ''DELETE'', http_headers = [],
                          http_body = None\<rparr>\<rparr>]"
  by (simp add: handler_requests fetch_requests)

lemma delete_silence_parsed:
  assumes "snd (fetchFromAlertmanager env net (''silence/'' @ silenceId)
             \<lparr>http_method = Some ''DELETE'', http_headers = [], http_body = None\<rparr>) =
           Inr parsed"
  shows "snd (delete_silence env net silenceId) =
           success (''Successfully deleted silence with ID: '' @ silenceId)"
  using assms by (auto simp: delete_silence_def try_catch_def split: prod.splits)

text \<open>
  Claim C9, at an upstream that answers the \<open>DELETE\<close> with 200 and an empty body.
  The request goes to the singular path \<open>silence/{silenceId}\<close>; the handler ignores
  the value \<open>fetchFromAlertmanager\<close> returns, but \<open>fetchFromAlertmanager\<close> parses the
  body, so the body that is not JSON ends in the failure envelope.
\<close>

theorem delete_silence_empty_body:
  "delete_silence None example_empty_body ''abc'' =
     ([Fetch \<lparr>req_url = ''http://localhost:9093/api/v2/silence/abc'',
              req_init = \<lparr>http_method = Some ''DELETE'', http_headers = [],
                           http_body = None\<rparr>\<rparr>,
       ConsoleError ''Error fetching from Alertmanager: Unexpected end of JSON input''],
      \<lparr>content = [\<lparr>block_type = ''text'',
           block_text = ''Error deleting silence: Unexpected end of JSON input''\<rparr>],
       isError = Some True\<rparr>)"
  by (simp add: delete_silence_def fetchFromAlertmanager_def example_empty_body_def ok_def
                try_catch_def failure_def baseUrl_def DEFAULT_ALERTMANAGER_URL_def)

end
